theory Spec2Isabelle
  imports Main
begin

section \<open>Configuration constants\<close>

text \<open>
  The fields of \<^verbatim>\<open>MOOD_CONFIG\<close>. Durations are milliseconds; instants are
  milliseconds since the epoch, as \<^verbatim>\<open>Date.now()\<close> and \<^verbatim>\<open>getTime()\<close> report them.
\<close>

definition API_ENDPOINT :: string where
  "API_ENDPOINT = ''/api/mood''"

definition HISTORY_ENDPOINT :: string where
  "HISTORY_ENDPOINT = ''/api/mood/history''"

definition RETRY_ATTEMPTS :: int where
  "RETRY_ATTEMPTS = 3"

definition RETRY_DELAY :: int where
  "RETRY_DELAY = 1000"

definition CACHE_DURATION :: int where
  "CACHE_DURATION = 5 * 60 * 1000"

definition NOTIFICATION_DURATION :: int where
  "NOTIFICATION_DURATION = 3000"

section \<open>JavaScript values and string helpers\<close>

text \<open>
  \<^verbatim>\<open>logMood(mood, value)\<close> is callable with any JavaScript value, and
  \<^verbatim>\<open>validateMoodInput\<close> tests truthiness, \<^verbatim>\<open>typeof\<close> and \<^verbatim>\<open>parseInt\<close>,
  so the arguments are values of a small universe. \<open>JNum n\<close> stands for an integral number
  below \<open>10^21\<close> in magnitude, where the string conversion inside \<^verbatim>\<open>parseInt\<close>
  yields the plain decimal numeral; fractions and larger numbers are outside the model.
\<close>

datatype jsval = JUndefined | JNull | JBool bool | JNum int | JStr string

fun truthy :: "jsval \<Rightarrow> bool" where
  "truthy JUndefined = False"
| "truthy JNull = False"
| "truthy (JBool b) = b"
| "truthy (JNum n) = (n \<noteq> 0)"
| "truthy (JStr s) = (s \<noteq> [])"

fun typeof :: "jsval \<Rightarrow> string" where
  "typeof JUndefined = ''undefined''"
| "typeof JNull = ''object''"
| "typeof (JBool b) = ''boolean''"
| "typeof (JNum n) = ''number''"
| "typeof (JStr s) = ''string''"

text \<open>
  String helpers of the platform: \<^verbatim>\<open>trim\<close>, \<^verbatim>\<open>includes\<close> (a case-sensitive
  substring test), and \<^verbatim>\<open>parseInt\<close> with its default radix: leading white space is
  skipped, a sign is read, a \<^verbatim>\<open>0x\<close> prefix selects radix 16, and the longest run of
  digits is read; no digit at all gives \<^verbatim>\<open>NaN\<close>, here \<open>None\<close>. Characters are bytes,
  so only the ASCII white space characters are recognised.
\<close>

definition isWhiteSpace :: "char \<Rightarrow> bool" where
  "isWhiteSpace c = (c \<in> set [CHR 0x20, CHR 0x09, CHR 0x0A, CHR 0x0B, CHR 0x0C, CHR 0x0D])"

definition trim :: "string \<Rightarrow> string" where
  "trim s = rev (dropWhile isWhiteSpace (rev (dropWhile isWhiteSpace s)))"

fun str_includes :: "string \<Rightarrow> string \<Rightarrow> bool" where
  "str_includes [] sub = (sub = [])"
| "str_includes (c # cs) sub = (take (length sub) (c # cs) = sub \<or> str_includes cs sub)"

definition digitValue :: "char \<Rightarrow> int option" where
  "digitValue c =
     (let n = (of_char c :: nat) in
      if 48 \<le> n \<and> n \<le> 57 then Some (int n - 48)
      else if 97 \<le> n \<and> n \<le> 102 then Some (int n - 87)
      else if 65 \<le> n \<and> n \<le> 70 then Some (int n - 55)
      else None)"

fun parseDigits :: "int \<Rightarrow> string \<Rightarrow> int option \<Rightarrow> int option" where
  "parseDigits radix [] acc = acc"
| "parseDigits radix (c # cs) acc =
     (case digitValue c of
        None \<Rightarrow> acc
      | Some d \<Rightarrow>
          if d < radix
          then parseDigits radix cs (Some ((case acc of None \<Rightarrow> 0 | Some a \<Rightarrow> a) * radix + d))
          else acc)"

definition parseIntString :: "string \<Rightarrow> int option" where
  "parseIntString s =
     (let s1 = dropWhile isWhiteSpace s;
          (sign, s2) = (case s1 of
                          [] \<Rightarrow> (1, s1)
                        | c # r \<Rightarrow> if c = CHR ''-'' then (- 1, r)
                                   else if c = CHR ''+'' then (1, r) else (1, s1));
          (radix, s3) = (if take 2 s2 = ''0x'' \<or> take 2 s2 = ''0X''
                         then (16, drop 2 s2) else (10, s2))
      in map_option (\<lambda>n. sign * n) (parseDigits radix s3 None))"

fun parseInt :: "jsval \<Rightarrow> int option" where
  "parseInt (JStr s) = parseIntString s"
| "parseInt (JNum n) = Some n"
| "parseInt JUndefined = None"
| "parseInt JNull = None"
| "parseInt (JBool b) = None"

text \<open>Decimal rendering of the HTTP status inside the fallback error message.\<close>

definition digitChar :: "nat \<Rightarrow> char" where
  "digitChar d = ''0123456789'' ! d"

fun showNat :: "nat \<Rightarrow> string" where
  "showNat n = (if n < 10 then [digitChar n] else showNat (n div 10) @ [digitChar (n mod 10)])"

declare showNat.simps [simp del]

section \<open>The mood table\<close>

text \<open>
  \<^verbatim>\<open>MOOD_MAPPINGS\<close> is an object literal with five own properties. The emoji are written
  by their code points. A property read \<^verbatim>\<open>MOOD_MAPPINGS[mood]\<close> on a plain object
  also finds the properties inherited from \<^verbatim>\<open>Object.prototype\<close>, each of them a function
  or an object and therefore truthy; \<open>MOOD_MAPPINGS_lookup\<close> is that property read, with
  \<open>None\<close> for \<^verbatim>\<open>undefined\<close>.
\<close>

record moodAttributes =
  mood_value :: int
  emoji :: string
  color :: string

definition MOOD_MAPPINGS :: "(string \<times> moodAttributes) list" where
  "MOOD_MAPPINGS =
     [(''Happy'', \<lparr>mood_value = 5, emoji = ''U+1F60A'', color = ''#10B981''\<rparr>),
      (''Good'', \<lparr>mood_value = 4, emoji = ''U+1F642'', color = ''#059669''\<rparr>),
      (''Okay'', \<lparr>mood_value = 3, emoji = ''U+1F610'', color = ''#F59E0B''\<rparr>),
      (''Worried'', \<lparr>mood_value = 2, emoji = ''U+1F61F'', color = ''#EF4444''\<rparr>),
      (''Sad'', \<lparr>mood_value = 1, emoji = ''U+1F622'', color = ''#DC2626''\<rparr>)]"

definition objectPrototypeKeys :: "string list" where
  "objectPrototypeKeys =
     [''constructor'', ''hasOwnProperty'', ''isPrototypeOf'', ''propertyIsEnumerable'',
      ''toLocaleString'', ''toString'', ''valueOf'', ''__proto__'',
      ''__defineGetter__'', ''__defineSetter__'', ''__lookupGetter__'', ''__lookupSetter__'']"

datatype property = OwnProperty moodAttributes | InheritedProperty string

definition MOOD_MAPPINGS_lookup :: "string \<Rightarrow> property option" where
  "MOOD_MAPPINGS_lookup key =
     (case map_of MOOD_MAPPINGS key of
        Some attrs \<Rightarrow> Some (OwnProperty attrs)
      | None \<Rightarrow>
          if key \<in> set objectPrototypeKeys then Some (InheritedProperty key) else None)"

text \<open>
  \<^verbatim>\<open>validateMoodInput\<close>, check by check in the order of the source. The table is only
  read once \<open>mood\<close> is known to be a string.
\<close>

definition validateMoodInput :: "jsval \<Rightarrow> jsval \<Rightarrow> bool" where
  "validateMoodInput mood v =
     (if \<not> truthy mood \<or> typeof mood \<noteq> ''string'' then False
      else case parseInt v of
        None \<Rightarrow> False
      | Some numValue \<Rightarrow>
          if numValue < 1 \<or> numValue > 5 then False
          else if (case mood of JStr s \<Rightarrow> MOOD_MAPPINGS_lookup s | _ \<Rightarrow> None) = None
          then False
          else True)"

section \<open>Calendar and history records\<close>

text \<open>
  The \<^verbatim>\<open>Date\<close> operations that \<^verbatim>\<open>processHistoryData\<close> uses belong to the
  platform and are taken as a parameter: \<open>startOfDay\<close> is \<^verbatim>\<open>setHours(0, 0, 0, 0)\<close> on an
  instant, \<open>addDays t k\<close> is \<^verbatim>\<open>setDate(getDate() + k)\<close>, and \<open>dateLabel\<close> is
  \<^verbatim>\<open>toLocaleDateString\<close> with the options of the source. \<open>fixedOffsetCalendar\<close> is the
  calendar of a zone with a constant offset from UTC (no daylight-saving transitions).

  A raw history record carries in \<open>rec_date\<close> the time value of
  \<^verbatim>\<open>new Date(h.date)\<close>, \<open>None\<close> when the date does not parse (the time value is
  \<^verbatim>\<open>NaN\<close>, which is equal to nothing).
\<close>

definition msPerDay :: int where
  "msPerDay = 86400000"

record calendar =
  startOfDay :: "int \<Rightarrow> int"
  addDays :: "int \<Rightarrow> int \<Rightarrow> int"
  dateLabel :: "int \<Rightarrow> string"

definition fixedOffsetCalendar :: "int \<Rightarrow> (int \<Rightarrow> string) \<Rightarrow> calendar" where
  "fixedOffsetCalendar off fmt =
     \<lparr>startOfDay = (\<lambda>t. t - (t + off) mod msPerDay),
      addDays = (\<lambda>t k. t + k * msPerDay),
      dateLabel = fmt\<rparr>"

record historyRecord =
  rec_date :: "int option"
  rec_value :: int

record chartData =
  labels :: "string list"
  dataPoints :: "int option list"
  rawHistory :: "historyRecord list"

section \<open>Errors, HTTP and the environment\<close>

text \<open>
  A thrown value is an error object with a message. A response body is modelled by what the
  code reads from it: an array of history records, an object with its \<^verbatim>\<open>message\<close> and
  \<^verbatim>\<open>msg\<close> fields when they are strings, \<^verbatim>\<open>null\<close>; \<open>PUndefined\<close> is the value
  of a call that falls off the end of \<^verbatim>\<open>retryRequest\<close>.

  The environment is explicit: the network is an oracle giving, for the \<open>k\<close>-th call of
  \<^verbatim>\<open>fetch\<close>, its latency and its outcome; \<open>now\<close> is the clock, \<open>token\<close> the entry
  of local storage, \<open>mountPresent\<close> tells whether the element \<^verbatim>\<open>moodChart\<close> exists.
  Every effect on a collaborator is appended to \<open>trace\<close>, in program order. Asynchronous
  calls are run to completion one after the other; an \<^verbatim>\<open>await\<close> is a point where the
  clock advances.
\<close>

datatype js_error = Error string | TypeError string | SyntaxError string

fun message :: "js_error \<Rightarrow> string" where
  "message (Error m) = m"
| "message (TypeError m) = m"
| "message (SyntaxError m) = m"

datatype payload =
    PUndefined
  | PNull
  | PArray "historyRecord list"
  | PObject "string option" "string option"

datatype httpBody = InvalidJson | Json payload

record httpResponse =
  resp_ok :: bool
  resp_status :: nat
  resp_statusText :: string
  resp_body :: httpBody

datatype fetchResult = FetchRejected js_error | FetchResponse httpResponse

record moodData =
  md_mood :: string
  md_value :: "int option"
  md_timestamp :: int
  md_userAgent :: string
  md_timezone :: string

record requestOptions =
  opt_method :: "string option"
  opt_body :: "moodData option"
  opt_headers :: "(string \<times> string) list option"

definition emptyOptions :: requestOptions where
  "emptyOptions = \<lparr>opt_method = None, opt_body = None, opt_headers = None\<rparr>"

record httpConfig =
  cfg_url :: string
  cfg_headers :: "(string \<times> string) list"
  cfg_method :: "string option"
  cfg_body :: "moodData option"

datatype event =
    EvFetch httpConfig
  | EvSleep int
  | EvLoadingState bool
  | EvMoodUI string
  | EvCacheClear
  | EvChartDestroy
  | EvChartCreate "string list" "int option list"
  | EvNotify string string
  | EvConsoleError string js_error

record world =
  net :: "nat \<Rightarrow> nat \<times> fetchResult"
  calls :: nat
  now :: int
  token :: "string option"
  userAgent :: string
  timeZone :: string
  mountPresent :: bool
  cal :: calendar
  trace :: "event list"

definition emit :: "event \<Rightarrow> world \<Rightarrow> world" where
  "emit ev w = w\<lparr>trace := trace w @ [ev]\<rparr>"

section \<open>ApiClient\<close>

text \<open>
  \<^verbatim>\<open>ApiClient.request\<close>: the configuration built from the token and the options
  (\<^verbatim>\<open>...options\<close> comes last in the literal, so headers given in the options replace
  the merged ones), one call of \<^verbatim>\<open>fetch\<close>, and the treatment of the response.
\<close>

definition orElse :: "string option \<Rightarrow> string \<Rightarrow> string" where
  "orElse field other = (case field of None \<Rightarrow> other | Some s \<Rightarrow> if s \<noteq> [] then s else other)"

definition handleResponse :: "httpResponse \<Rightarrow> js_error + payload" where
  "handleResponse response =
     (if \<not> resp_ok response then
        (let errorData = (case resp_body response of
                            InvalidJson \<Rightarrow> PObject None None
                          | Json p \<Rightarrow> p);
             fallback = ''HTTP '' @ showNat (resp_status response) @ '': ''
                          @ resp_statusText response
         in case errorData of
              PUndefined \<Rightarrow> Inl (TypeError ''Cannot read properties of undefined'')
            | PNull \<Rightarrow> Inl (TypeError ''Cannot read properties of null'')
            | PArray xs \<Rightarrow> Inl (Error fallback)
            | PObject msg1 msg2 \<Rightarrow>
                Inl (Error (orElse msg1 (orElse msg2 fallback))))
      else
        (case resp_body response of
           InvalidJson \<Rightarrow> Inl (SyntaxError ''Unexpected end of JSON input'')
         | Json p \<Rightarrow> Inr p))"

definition buildConfig :: "string \<Rightarrow> string \<Rightarrow> requestOptions \<Rightarrow> world \<Rightarrow> httpConfig" where
  "buildConfig baseUrl endpoint options w =
     (let defaultHeaders =
            (''Content-Type'', ''application/json'')
            # (case token w of
                 None \<Rightarrow> []
               | Some tk \<Rightarrow> if tk \<noteq> [] then [(''x-auth-token'', tk)] else [])
      in \<lparr>cfg_url = baseUrl @ endpoint,
          cfg_headers = (case opt_headers options of
                           None \<Rightarrow> defaultHeaders
                         | Some hs \<Rightarrow> hs),
          cfg_method = opt_method options,
          cfg_body = opt_body options\<rparr>)"

definition request ::
  "string \<Rightarrow> string \<Rightarrow> requestOptions \<Rightarrow> world \<Rightarrow> (js_error + payload) \<times> world" where
  "request baseUrl endpoint options w =
     (let config = buildConfig baseUrl endpoint options w;
          (latency, res) = net w (calls w);
          w' = w\<lparr>calls := Suc (calls w),
                 now := now w + int latency,
                 trace := trace w @ [EvFetch config]\<rparr>
      in (case res of
            FetchRejected e \<Rightarrow> Inl e
          | FetchResponse response \<Rightarrow> handleResponse response, w'))"

text \<open>
  \<^verbatim>\<open>ApiClient.retryRequest\<close>: the \<^verbatim>\<open>for\<close> loop over \<open>i\<close>, with the number of
  attempts an integer. A loop that never runs returns \<^verbatim>\<open>undefined\<close>.
\<close>

definition sleep :: "int \<Rightarrow> world \<Rightarrow> world" where
  "sleep ms w = w\<lparr>now := now w + ms, trace := trace w @ [EvSleep ms]\<rparr>"

function retryLoop ::
  "string \<Rightarrow> string \<Rightarrow> requestOptions \<Rightarrow> int \<Rightarrow> nat \<Rightarrow> world
     \<Rightarrow> (js_error + payload) \<times> world" where
  "retryLoop baseUrl endpoint options attempts i w =
     (if int i < attempts then
        (case request baseUrl endpoint options w of
           (Inr result, w') \<Rightarrow> (Inr result, w')
         | (Inl error, w') \<Rightarrow>
             if int i = attempts - 1 then (Inl error, w')
             else retryLoop baseUrl endpoint options attempts (Suc i)
                    (sleep (RETRY_DELAY * (int i + 1)) w'))
      else (Inr PUndefined, w))"
  by pat_completeness auto
termination
  by (relation "measure (\<lambda>(baseUrl, endpoint, options, attempts, i, w). nat (attempts - int i))")
     auto

declare retryLoop.simps [simp del]

definition retryRequest ::
  "string \<Rightarrow> string \<Rightarrow> requestOptions \<Rightarrow> int \<Rightarrow> world \<Rightarrow> (js_error + payload) \<times> world" where
  "retryRequest baseUrl endpoint options attempts w =
     retryLoop baseUrl endpoint options attempts 0 w"

text \<open>
  Vocabulary for statements about runs: \<open>outcome w k\<close> is what the \<open>k\<close>-th next call of
  \<open>request\<close> in world \<open>w\<close> returns or throws; \<open>retryTrace cfg i m\<close> is the trace of
  \<open>m\<close> requests starting at loop index \<open>i\<close>, each but the last followed by its wait;
  \<open>delays\<close> reads the waits off a trace. \<open>latency w k\<close> is the time the \<open>k\<close>-th
  next call of \<^verbatim>\<open>fetch\<close> takes, and \<open>attemptWorld b e opts i w j\<close> is the world in which
  the loop, started at index \<open>i\<close> in world \<open>w\<close>, issues its \<open>j\<close>-th next attempt when
  every earlier one failed: each earlier attempt is one \<open>request\<close> followed by its
  \<open>sleep\<close>.
\<close>

definition outcome :: "world \<Rightarrow> nat \<Rightarrow> js_error + payload" where
  "outcome w k =
     (case snd (net w (calls w + k)) of
        FetchRejected e \<Rightarrow> Inl e
      | FetchResponse response \<Rightarrow> handleResponse response)"

fun retryTrace :: "httpConfig \<Rightarrow> nat \<Rightarrow> nat \<Rightarrow> event list" where
  "retryTrace cfg i 0 = []"
| "retryTrace cfg i (Suc 0) = [EvFetch cfg]"
| "retryTrace cfg i (Suc (Suc m)) =
     EvFetch cfg # EvSleep (RETRY_DELAY * (int i + 1)) # retryTrace cfg (Suc i) (Suc m)"

fun delays :: "event list \<Rightarrow> int list" where
  "delays [] = []"
| "delays (EvSleep ms # evs) = ms # delays evs"
| "delays (ev # evs) = delays evs"

definition latency :: "world \<Rightarrow> nat \<Rightarrow> int" where
  "latency w k = int (fst (net w (calls w + k)))"

fun attemptWorld ::
  "string \<Rightarrow> string \<Rightarrow> requestOptions \<Rightarrow> nat \<Rightarrow> world \<Rightarrow> nat \<Rightarrow> world" where
  "attemptWorld b e opts i w 0 = w"
| "attemptWorld b e opts i w (Suc j) =
     sleep (RETRY_DELAY * (int (i + j) + 1))
       (snd (request b e opts (attemptWorld b e opts i w j)))"

section \<open>MoodCache\<close>

text \<open>
  The class wraps a \<^verbatim>\<open>Map\<close> from keys to \<^verbatim>\<open>{ data, expiry }\<close>. The clock reading
  \<^verbatim>\<open>Date.now()\<close> is an explicit argument; \<^verbatim>\<open>get\<close> returns the payload, or
  \<open>None\<close> for \<^verbatim>\<open>null\<close>, together with the map as it leaves it.
\<close>

record 'a cacheItem =
  data :: 'a
  expiry :: int

type_synonym 'a moodCache = "string \<rightharpoonup> 'a cacheItem"

definition MoodCache_new :: "'a moodCache" where
  "MoodCache_new = Map.empty"

definition MoodCache_set :: "string \<Rightarrow> 'a \<Rightarrow> int \<Rightarrow> int \<Rightarrow> 'a moodCache \<Rightarrow> 'a moodCache" where
  "MoodCache_set key d ttl clock c = c(key \<mapsto> \<lparr>data = d, expiry = clock + ttl\<rparr>)"

definition MoodCache_get :: "string \<Rightarrow> int \<Rightarrow> 'a moodCache \<Rightarrow> 'a option \<times> 'a moodCache" where
  "MoodCache_get key clock c =
     (case c key of
        None \<Rightarrow> (None, c)
      | Some item \<Rightarrow>
          if clock > expiry item then (None, c(key := None))
          else (Some (data item), c))"

definition MoodCache_clear :: "'a moodCache \<Rightarrow> 'a moodCache" where
  "MoodCache_clear c = Map.empty"

section \<open>MoodTracker\<close>

text \<open>
  The fields of a \<^verbatim>\<open>MoodTracker\<close>; the \<^verbatim>\<open>ApiClient\<close> is represented by its base
  URL, the chart instance by the series it was created with.
\<close>

record tracker =
  apiClient :: string
  cache :: "chartData moodCache"
  isLoading :: bool
  chartInstance :: "(string list \<times> int option list) option"

definition MoodTracker_new :: "string \<Rightarrow> tracker" where
  "MoodTracker_new apiUrl =
     \<lparr>apiClient = apiUrl, cache = MoodCache_new, isLoading = False, chartInstance = None\<rparr>"

text \<open>
  \<^verbatim>\<open>processHistoryData\<close>: \<open>entryMatches\<close> is the predicate handed to
  \<^verbatim>\<open>history.find\<close>, \<open>daysLoop\<close> the loop from \<open>i = 6\<close> down to \<open>0\<close> that pushes one
  label and one data point per day (\<^verbatim>\<open>null\<close> is \<open>None\<close>). \<open>slotOf\<close> names the data
  point pushed for one day.
\<close>

definition entryMatches :: "calendar \<Rightarrow> int \<Rightarrow> historyRecord \<Rightarrow> bool" where
  "entryMatches c date h =
     (case rec_date h of
        None \<Rightarrow> False
      | Some t \<Rightarrow> startOfDay c t = date)"

function daysLoop ::
  "calendar \<Rightarrow> int \<Rightarrow> historyRecord list \<Rightarrow> int \<Rightarrow> string list \<Rightarrow> int option list
     \<Rightarrow> string list \<times> int option list" where
  "daysLoop c today history i ls ds =
     (if i \<ge> 0 then
        let date = addDays c today (- i);
            label = dateLabel c date;
            entry = List.find (entryMatches c date) history
        in daysLoop c today history (i - 1) (ls @ [label])
             (ds @ [case entry of Some e \<Rightarrow> Some (rec_value e) | None \<Rightarrow> None])
      else (ls, ds))"
  by pat_completeness auto
termination
  by (relation "measure (\<lambda>(c, today, history, i, ls, ds). nat (i + 1))") auto

declare daysLoop.simps [simp del]

definition processHistoryData :: "calendar \<Rightarrow> int \<Rightarrow> historyRecord list \<Rightarrow> chartData" where
  "processHistoryData c clock history =
     (let today = startOfDay c clock;
          (ls, ds) = daysLoop c today history 6 [] []
      in \<lparr>labels = ls, dataPoints = ds, rawHistory = history\<rparr>)"

definition slotOf :: "calendar \<Rightarrow> historyRecord list \<Rightarrow> int \<Rightarrow> int option" where
  "slotOf c history date =
     (case List.find (entryMatches c date) history of
        Some e \<Rightarrow> Some (rec_value e) | None \<Rightarrow> None)"

text \<open>
  Rendering and notification. \<^verbatim>\<open>createMoodChart\<close> does nothing without the mount point,
  and otherwise destroys the previous chart and creates a new one.
\<close>

definition createMoodChart ::
  "string list \<Rightarrow> int option list \<Rightarrow> world \<times> tracker \<Rightarrow> world \<times> tracker" where
  "createMoodChart ls ds s =
     (let (w, t) = s in
      if \<not> mountPresent w then (w, t)
      else
        let w1 = (if chartInstance t \<noteq> None then emit EvChartDestroy w else w)
        in (emit (EvChartCreate ls ds) w1, t\<lparr>chartInstance := Some (ls, ds)\<rparr>))"

definition showNotification :: "string \<Rightarrow> string \<Rightarrow> world \<Rightarrow> world" where
  "showNotification msg type w = emit (EvNotify msg type) w"

definition showSuccessNotification :: "string \<Rightarrow> world \<Rightarrow> world" where
  "showSuccessNotification msg w = showNotification msg ''success'' w"

definition showErrorNotification :: "string \<Rightarrow> world \<Rightarrow> world" where
  "showErrorNotification msg w = showNotification msg ''error'' w"

definition showLoadingState :: "bool \<Rightarrow> world \<Rightarrow> world" where
  "showLoadingState b w = emit (EvLoadingState b) w"

definition updateMoodUI :: "string \<Rightarrow> world \<Rightarrow> world" where
  "updateMoodUI mood w = emit (EvMoodUI mood) w"

definition errorNotificationText :: "js_error \<Rightarrow> string" where
  "errorNotificationText error =
     ''Failed to log mood. '' @
     (if str_includes (message error) ''network'' \<or> str_includes (message error) ''fetch''
      then ''Please check your internet connection.''
      else if str_includes (message error) ''401''
              \<or> str_includes (message error) ''unauthorized''
      then ''Please log in again.''
      else if str_includes (message error) ''429''
      then ''Too many requests. Please wait a moment.''
      else ''Please try again later.'')"

definition handleMoodLogError :: "js_error \<Rightarrow> world \<Rightarrow> world" where
  "handleMoodLogError error w =
     showErrorNotification (errorNotificationText error)
       (emit (EvConsoleError ''Mood logging failed:'' error) w)"

text \<open>
  \<^verbatim>\<open>fetchMoodHistory\<close>; \<open>fetchFailed\<close> is its \<^verbatim>\<open>catch\<close> block. A response
  that is not an array makes \<^verbatim>\<open>history.find\<close> throw inside the \<^verbatim>\<open>try\<close>.
\<close>

definition fetchFailed ::
  "js_error \<Rightarrow> world \<times> tracker \<Rightarrow> (js_error + chartData) \<times> world \<times> tracker" where
  "fetchFailed error s =
     (let (w, t) = s;
          w1 = emit (EvConsoleError ''Failed to fetch mood history:'' error) w;
          w2 = showErrorNotification ''Unable to load mood history. Please try again later.'' w1;
          (w3, t3) = createMoodChart [] [] (w2, t)
      in (Inl error, w3, t3))"

definition fetchMoodHistory ::
  "bool \<Rightarrow> world \<times> tracker \<Rightarrow> (js_error + chartData) \<times> world \<times> tracker" where
  "fetchMoodHistory forceRefresh s =
     (let (w, t) = s;
          cacheKey = ''mood_history'';
          (cachedData, c1) = (if \<not> forceRefresh
                              then MoodCache_get cacheKey (now w) (cache t)
                              else (None, cache t));
          t1 = t\<lparr>cache := c1\<rparr>
      in case cachedData of
           Some cd \<Rightarrow>
             (let (w2, t2) = createMoodChart (labels cd) (dataPoints cd) (w, t1)
              in (Inr cd, w2, t2))
         | None \<Rightarrow>
             (case retryRequest (apiClient t1) HISTORY_ENDPOINT emptyOptions RETRY_ATTEMPTS w of
                (Inl error, w1) \<Rightarrow> fetchFailed error (w1, t1)
              | (Inr (PArray history), w1) \<Rightarrow>
                  (let cd = processHistoryData (cal w1) (now w1) history;
                       t2 = t1\<lparr>cache := MoodCache_set cacheKey cd CACHE_DURATION (now w1)
                                          (cache t1)\<rparr>;
                       (w3, t3) = createMoodChart (labels cd) (dataPoints cd) (w1, t2)
                   in (Inr cd, w3, t3))
              | (Inr other, w1) \<Rightarrow>
                  fetchFailed (TypeError ''history.find is not a function'') (w1, t1)))"

text \<open>
  \<^verbatim>\<open>logMood\<close>: \<open>logMoodTry\<close> is the body of the \<^verbatim>\<open>try\<close> block, \<open>logMood\<close>
  wraps it with the two early throws, the \<^verbatim>\<open>catch\<close> and the \<^verbatim>\<open>finally\<close>. The
  request body is built once, before the first attempt.
\<close>

definition successText :: "string \<Rightarrow> string" where
  "successText mood =
     ''Mood logged successfully: '' @ mood @ '' '' @
     (case MOOD_MAPPINGS_lookup mood of
        Some (OwnProperty attrs) \<Rightarrow> emoji attrs
      | _ \<Rightarrow> [])"

definition submitOptions :: "string \<Rightarrow> jsval \<Rightarrow> world \<Rightarrow> requestOptions" where
  "submitOptions m v w =
     (let moodData = \<lparr>md_mood = trim m, md_value = parseInt v, md_timestamp = now w,
                       md_userAgent = userAgent w, md_timezone = timeZone w\<rparr>
      in \<lparr>opt_method = Some ''POST'', opt_body = Some moodData, opt_headers = None\<rparr>)"

definition logMoodTry ::
  "jsval \<Rightarrow> jsval \<Rightarrow> world \<times> tracker \<Rightarrow> (js_error + payload) \<times> world \<times> tracker" where
  "logMoodTry mood v s =
     (let (w, t) = s in
      case mood of
        JStr m \<Rightarrow>
          (case retryRequest (apiClient t) API_ENDPOINT (submitOptions m v w)
                  RETRY_ATTEMPTS w of
                (Inl error, w1) \<Rightarrow> (Inl error, w1, t)
              | (Inr result, w1) \<Rightarrow>
                  (let w2 = updateMoodUI m w1;
                       t2 = t\<lparr>cache := MoodCache_clear (cache t)\<rparr>;
                       w3 = emit EvCacheClear w2
                   in case fetchMoodHistory False (w3, t2) of
                        (Inl error, w4, t4) \<Rightarrow> (Inl error, w4, t4)
                      | (Inr cd, w4, t4) \<Rightarrow>
                          (Inr result, showSuccessNotification (successText m) w4, t4)))
      | _ \<Rightarrow> (Inl (TypeError ''mood.trim is not a function''), w, t))"

definition logMood ::
  "jsval \<Rightarrow> jsval \<Rightarrow> world \<times> tracker \<Rightarrow> (js_error + payload) \<times> world \<times> tracker" where
  "logMood mood v s =
     (let (w, t) = s in
      if \<not> validateMoodInput mood v
      then (Inl (Error ''Invalid mood data provided''), w, t)
      else if isLoading t
      then (Inl (Error ''Please wait for the previous mood entry to complete''), w, t)
      else
        (let t1 = t\<lparr>isLoading := True\<rparr>;
             w1 = showLoadingState True w;
             (r, w2, t2) = logMoodTry mood v (w1, t1);
             w3 = (case r of
                     Inl error \<Rightarrow> handleMoodLogError error w2
                   | Inr result \<Rightarrow> w2)
         in (r, showLoadingState False w3, t2\<lparr>isLoading := False\<rparr>)))"

text \<open>A trace is quiet when it holds no request and no clearing of the cache.\<close>

definition quiet :: "event list \<Rightarrow> bool" where
  "quiet evs \<longleftrightarrow> (\<forall>ev\<in>set evs. (\<forall>c. ev \<noteq> EvFetch c) \<and> ev \<noteq> EvCacheClear)"

section \<open>Sample environments\<close>

text \<open>
  Concrete environments on which the theorems below are instantiated: a network whose first
  two answers fail and whose later answers succeed, a network that always answers 401, an
  idle tracker, a tracker with a fresh cached series, and a history with two records on one
  day and one record with an unparsable date.
\<close>

definition sampleNet :: "nat \<Rightarrow> nat \<times> fetchResult" where
  "sampleNet k =
     (if k = 0 then (30, FetchRejected (TypeError ''Failed to fetch''))
      else if k = 1 then (20, FetchResponse \<lparr>resp_ok = False, resp_status = 503,
              resp_statusText = ''Service Unavailable'', resp_body = InvalidJson\<rparr>)
      else if k = 2 then (10, FetchResponse \<lparr>resp_ok = True, resp_status = 200,
              resp_statusText = ''OK'', resp_body = Json (PObject None None)\<rparr>)
      else (10, FetchResponse \<lparr>resp_ok = True, resp_status = 200,
              resp_statusText = ''OK'',
              resp_body = Json (PArray [\<lparr>rec_date = Some 1704844800000, rec_value = 4\<rparr>])\<rparr>))"

definition unauthorizedNet :: "nat \<Rightarrow> nat \<times> fetchResult" where
  "unauthorizedNet k =
     (5, FetchResponse \<lparr>resp_ok = False, resp_status = 401,
           resp_statusText = ''Unauthorized'', resp_body = InvalidJson\<rparr>)"

definition sampleWorld :: world where
  "sampleWorld =
     \<lparr>net = sampleNet, calls = 0, now = 1704898800000, token = Some ''abc'',
      userAgent = ''agent'', timeZone = ''UTC'', mountPresent = True,
      cal = fixedOffsetCalendar 0 (\<lambda>t. ''day''), trace = []\<rparr>"

definition sampleTracker :: tracker where
  "sampleTracker = MoodTracker_new ''http://localhost:5000''"

definition sampleHistory :: "historyRecord list" where
  "sampleHistory =
     [\<lparr>rec_date = Some 1704844800000, rec_value = 4\<rparr>,
      \<lparr>rec_date = Some 1704844800001, rec_value = 2\<rparr>,
      \<lparr>rec_date = None, rec_value = 3\<rparr>]"

definition sampleSeries :: chartData where
  "sampleSeries =
     \<lparr>labels = [''day'', ''day'', ''day'', ''day'', ''day'', ''day'', ''day''],
      dataPoints = [None, None, None, None, None, None, Some 4],
      rawHistory = [\<lparr>rec_date = Some 1704844800000, rec_value = 4\<rparr>]\<rparr>"

definition cachedTracker :: tracker where
  "cachedTracker =
     sampleTracker\<lparr>cache := MoodCache_set ''mood_history'' sampleSeries CACHE_DURATION
                                1704898700000 MoodCache_new\<rparr>"

section \<open>The cache\<close>

text \<open>
  C3. For every key: when the cache holds an entry for the key and the clock is not past
  the entry's expiry, \<^verbatim>\<open>get\<close> returns the stored payload and leaves the cache as it
  was; when the clock is past the expiry, \<^verbatim>\<open>get\<close> returns absence and deletes the
  entry, so that a following \<^verbatim>\<open>get\<close> of the same key, at whatever clock reading,
  returns absence too.
\<close>

theorem MoodCache_get_expiry:
  assumes "c key = Some item"
  shows "(clock \<le> expiry item \<longrightarrow>
            MoodCache_get key clock c = (Some (data item), c))
       \<and> (clock > expiry item \<longrightarrow>
            fst (MoodCache_get key clock c) = None
          \<and> snd (MoodCache_get key clock c) key = None
          \<and> snd (MoodCache_get key clock c) = c(key := None)
          \<and> fst (MoodCache_get key clock' (snd (MoodCache_get key clock c))) = None)"
  using assms by (simp add: MoodCache_get_def)

text \<open>
  The theorem at an entry stored at time 0 with the default time to live: read one
  millisecond before the expiry it is returned, read one millisecond after it is gone, and
  stays gone.
\<close>

theorem MoodCache_get_expiry_witness:
  "MoodCache_get ''mood_history'' 299999
       (MoodCache_set ''mood_history'' (7::nat) CACHE_DURATION 0 MoodCache_new)
     = (Some 7, MoodCache_set ''mood_history'' 7 CACHE_DURATION 0 MoodCache_new)
   \<and> fst (MoodCache_get ''mood_history'' 300001
       (MoodCache_set ''mood_history'' (7::nat) CACHE_DURATION 0 MoodCache_new)) = None
   \<and> fst (MoodCache_get ''mood_history'' 300002
       (snd (MoodCache_get ''mood_history'' 300001
          (MoodCache_set ''mood_history'' (7::nat) CACHE_DURATION 0 MoodCache_new)))) = None"
proof -
  let ?c = "MoodCache_set ''mood_history'' (7::nat) CACHE_DURATION 0 MoodCache_new"
  have h: "?c ''mood_history'' = Some \<lparr>data = 7, expiry = 300000\<rparr>"
    by (simp add: MoodCache_set_def CACHE_DURATION_def)
  have fresh: "MoodCache_get ''mood_history'' 299999 ?c = (Some 7, ?c)"
    using h MoodCache_get_expiry
      [of ?c "''mood_history''" "\<lparr>data = 7, expiry = 300000\<rparr>" 299999]
    by simp
  have stale: "fst (MoodCache_get ''mood_history'' 300001 ?c) = None
      \<and> fst (MoodCache_get ''mood_history'' 300002
            (snd (MoodCache_get ''mood_history'' 300001 ?c))) = None"
    using h MoodCache_get_expiry
      [of ?c "''mood_history''" "\<lparr>data = 7, expiry = 300000\<rparr>" 300001 300002]
    by (simp (no_asm_use), blast)
  from fresh stale show ?thesis by blast
qed

section \<open>Runs of the retry loop\<close>

text \<open>
  What one request and one wait do to the world, and the run of the loop from any index:
  \<open>m\<close> requests are made, all but the last fail, the result is the outcome of the last,
  and a failure is only returned when the attempts are used up.
\<close>

lemma request_effect:
  assumes "request b e opts w = (r, w')"
  shows "r = outcome w 0" "calls w' = Suc (calls w)"
    "trace w' = trace w @ [EvFetch (buildConfig b e opts w)]"
    "net w' = net w" "token w' = token w" "cal w' = cal w"
    "mountPresent w' = mountPresent w" "userAgent w' = userAgent w"
    "timeZone w' = timeZone w" "now w \<le> now w'"
  using assms
  by (auto simp: request_def outcome_def Let_def split: prod.splits)

lemma sleep_effect:
  "calls (sleep ms w) = calls w" "trace (sleep ms w) = trace w @ [EvSleep ms]"
  "net (sleep ms w) = net w" "token (sleep ms w) = token w" "cal (sleep ms w) = cal w"
  "mountPresent (sleep ms w) = mountPresent w" "userAgent (sleep ms w) = userAgent w"
  "timeZone (sleep ms w) = timeZone w" "now (sleep ms w) = now w + ms"
  by (simp_all add: sleep_def)

lemma buildConfig_token:
  "token w' = token w \<Longrightarrow> buildConfig b e opts w' = buildConfig b e opts w"
  by (simp add: buildConfig_def)

lemma outcome_shift:
  "net w' = net w \<Longrightarrow> calls w' = Suc (calls w) \<Longrightarrow> outcome w' j = outcome w (Suc j)"
  by (simp add: outcome_def)

lemma retryTrace_step:
  "1 \<le> m \<Longrightarrow>
   [EvFetch cfg, EvSleep (RETRY_DELAY * (int i + 1))] @ retryTrace cfg (Suc i) m
     = retryTrace cfg i (Suc m)"
  by (cases m) simp_all

lemma retryLoop_run:
  assumes "int i < attempts" and "retryLoop b e opts attempts i w = (r, w')"
  shows "\<exists>m. 1 \<le> m \<and> int i + int m \<le> attempts
           \<and> calls w' = calls w + m
           \<and> trace w' = trace w @ retryTrace (buildConfig b e opts w) i m
           \<and> (\<forall>j<m - 1. isl (outcome w j))
           \<and> r = outcome w (m - 1)
           \<and> (isl r \<longrightarrow> int i + int m = attempts)
           \<and> net w' = net w \<and> token w' = token w \<and> cal w' = cal w
           \<and> mountPresent w' = mountPresent w \<and> userAgent w' = userAgent w
           \<and> timeZone w' = timeZone w"
  using assms
proof (induction b e opts attempts i w arbitrary: r w' rule: retryLoop.induct)
  case (1 b e opts attempts i w)
  obtain r0 w0 where req: "request b e opts w = (r0, w0)"
    by fastforce
  note eff = request_effect [OF req]
  show ?case
  proof (cases "isl r0 \<and> int i \<noteq> attempts - 1")
    case False
    then have "r = r0" "w' = w0"
      using "1.prems" req
      by (auto simp: retryLoop.simps [of b e opts attempts i w] split: sum.splits)
    then show ?thesis
      using eff "1.prems"(1) False
      by (intro exI [of _ 1]) auto
  next
    case True
    then obtain err where err: "r0 = Inl err"
      by (cases r0) auto
    let ?w1 = "sleep (RETRY_DELAY * (int i + 1)) w0"
    have rec: "retryLoop b e opts attempts (Suc i) ?w1 = (r, w')"
      using "1.prems" req err True
      by (simp add: retryLoop.simps [of b e opts attempts i w])
    have lt: "int (Suc i) < attempts"
      using True "1.prems"(1) by simp
    have "\<exists>m. 1 \<le> m \<and> int (Suc i) + int m \<le> attempts
           \<and> calls w' = calls ?w1 + m
           \<and> trace w' = trace ?w1 @ retryTrace (buildConfig b e opts ?w1) (Suc i) m
           \<and> (\<forall>j<m - 1. isl (outcome ?w1 j))
           \<and> r = outcome ?w1 (m - 1)
           \<and> (isl r \<longrightarrow> int (Suc i) + int m = attempts)
           \<and> net w' = net ?w1 \<and> token w' = token ?w1 \<and> cal w' = cal ?w1
           \<and> mountPresent w' = mountPresent ?w1 \<and> userAgent w' = userAgent ?w1
           \<and> timeZone w' = timeZone ?w1"
      using "1.IH" [OF "1.prems"(1) req [symmetric] _ _ lt rec] err True
      by simp
    then obtain m where m: "1 \<le> m" "int (Suc i) + int m \<le> attempts"
        "calls w' = calls ?w1 + m"
        "trace w' = trace ?w1 @ retryTrace (buildConfig b e opts ?w1) (Suc i) m"
        "\<forall>j<m - 1. isl (outcome ?w1 j)"
        "r = outcome ?w1 (m - 1)"
        "isl r \<longrightarrow> int (Suc i) + int m = attempts"
        "net w' = net ?w1" "token w' = token ?w1" "cal w' = cal ?w1"
        "mountPresent w' = mountPresent ?w1" "userAgent w' = userAgent ?w1"
        "timeZone w' = timeZone ?w1"
      by blast
    have cfg: "buildConfig b e opts ?w1 = buildConfig b e opts w"
      by (rule buildConfig_token) (simp add: sleep_effect eff)
    have sh: "outcome ?w1 j = outcome w (Suc j)" for j
      by (rule outcome_shift) (simp_all add: sleep_effect eff)
    have tr: "trace w' = trace w @ retryTrace (buildConfig b e opts w) i (Suc m)"
      using m(4) retryTrace_step [OF m(1), of "buildConfig b e opts w" i]
      by (simp add: cfg sleep_effect eff)
    have fails: "\<forall>j<Suc m - 1. isl (outcome w j)"
    proof (intro allI impI)
      fix j assume "j < Suc m - 1"
      show "isl (outcome w j)"
      proof (cases j)
        case 0
        have "outcome w 0 = Inl err" using eff(1) err by simp
        then show ?thesis using 0 by simp
      next
        case (Suc j')
        then have "j' < m - 1" using \<open>j < Suc m - 1\<close> by simp
        then show ?thesis using m(5) sh Suc by simp
      qed
    qed
    have res: "r = outcome w (Suc m - 1)"
      using m(6) m(1) sh [of "m - 1"] by simp
    have c2: "int i + int (Suc m) \<le> attempts"
      using m(2) by simp
    have c3: "calls w' = calls w + Suc m"
      using m(3) by (simp add: sleep_effect eff)
    have c7: "isl r \<longrightarrow> int i + int (Suc m) = attempts"
      using m(7) by (simp add: algebra_simps)
    have frame: "net w' = net w" "token w' = token w" "cal w' = cal w"
        "mountPresent w' = mountPresent w" "userAgent w' = userAgent w"
        "timeZone w' = timeZone w"
      using m(8-13) by (simp_all add: sleep_effect eff)
    have c1: "1 \<le> Suc m" by simp
    from c1 c2 c3 tr fails res c7 frame show ?thesis by blast
  qed
qed

lemma retryRequest_run:
  assumes "1 \<le> n" and "retryRequest b e opts n w = (r, w')"
  shows "\<exists>m. 1 \<le> m \<and> int m \<le> n
           \<and> calls w' = calls w + m
           \<and> trace w' = trace w @ retryTrace (buildConfig b e opts w) 0 m
           \<and> (\<forall>j<m - 1. isl (outcome w j))
           \<and> r = outcome w (m - 1)
           \<and> (isl r \<longrightarrow> int m = n)
           \<and> net w' = net w \<and> token w' = token w \<and> cal w' = cal w
           \<and> mountPresent w' = mountPresent w \<and> userAgent w' = userAgent w
           \<and> timeZone w' = timeZone w"
proof -
  have "int 0 < n" using assms(1) by simp
  from retryLoop_run [OF this assms(2) [unfolded retryRequest_def]]
  show ?thesis by simp
qed

lemma delays_retryTrace:
  "delays (retryTrace cfg i m) = map (\<lambda>j. RETRY_DELAY * (int i + int j)) [1..<m]"
proof (induction cfg i m rule: retryTrace.induct)
  case (1 cfg i)
  show ?case by simp
next
  case (2 cfg i)
  show ?case by simp
next
  case (3 cfg i m)
  have "[1..<Suc (Suc m)] = 1 # map Suc [1..<Suc m]"
    by (simp add: map_Suc_upt upt_conv_Cons del: upt_Suc)
  then show ?case
    using 3 by (simp add: o_def algebra_simps del: upt_Suc)
qed

lemma retryTrace_first:
  "1 \<le> m \<Longrightarrow> \<exists>rest. retryTrace cfg i m = EvFetch cfg # rest"
  by (induction cfg i m rule: retryTrace.induct) auto

lemma request_now:
  "now (snd (request b e opts w)) = now w + latency w 0"
  "calls (snd (request b e opts w)) = Suc (calls w)"
  "net (snd (request b e opts w)) = net w"
  by (simp_all add: request_def latency_def Let_def split: prod.splits)

lemma attemptWorld_shift:
  "attemptWorld b e opts i w (Suc j)
     = attemptWorld b e opts (Suc i)
         (sleep (RETRY_DELAY * (int i + 1)) (snd (request b e opts w))) j"
  by (induction j) (simp_all add: algebra_simps)

lemma attemptWorld_effect:
  "calls (attemptWorld b e opts i w j) = calls w + j
   \<and> net (attemptWorld b e opts i w j) = net w
   \<and> now (attemptWorld b e opts i w j)
       = now w + (\<Sum>k<j. latency w k + RETRY_DELAY * (int (i + k) + 1))"
proof (induction j)
  case 0
  show ?case by simp
next
  case (Suc j)
  let ?a = "attemptWorld b e opts i w j"
  have lat: "latency ?a 0 = latency w j"
    using Suc by (simp add: latency_def)
  show ?case
    using Suc by (simp add: sleep_effect request_now lat algebra_simps)
qed

lemma retryLoop_last:
  assumes "int i < attempts" and "retryLoop b e opts attempts i w = (r, w')"
  shows "\<exists>m. 1 \<le> m \<and> calls w' = calls w + m
           \<and> request b e opts (attemptWorld b e opts i w (m - 1)) = (r, w')"
  using assms
proof (induction b e opts attempts i w arbitrary: r w' rule: retryLoop.induct)
  case (1 b e opts attempts i w)
  obtain r0 w0 where req: "request b e opts w = (r0, w0)"
    by fastforce
  note eff = request_effect [OF req]
  show ?case
  proof (cases "isl r0 \<and> int i \<noteq> attempts - 1")
    case False
    then have "r = r0" "w' = w0"
      using "1.prems" req
      by (auto simp: retryLoop.simps [of b e opts attempts i w] split: sum.splits)
    then have "calls w' = calls w + 1"
      "request b e opts (attemptWorld b e opts i w (1 - 1)) = (r, w')"
      using eff(2) req by simp_all
    then show ?thesis by (intro exI [of _ 1]) simp
  next
    case True
    then obtain err where err: "r0 = Inl err"
      by (cases r0) auto
    let ?w1 = "sleep (RETRY_DELAY * (int i + 1)) w0"
    have rec: "retryLoop b e opts attempts (Suc i) ?w1 = (r, w')"
      using "1.prems" req err True
      by (simp add: retryLoop.simps [of b e opts attempts i w])
    have lt: "int (Suc i) < attempts"
      using True "1.prems"(1) by simp
    from "1.IH" [OF "1.prems"(1) req [symmetric] _ _ lt rec] err True
    obtain m where m: "1 \<le> m" "calls w' = calls ?w1 + m"
        "request b e opts (attemptWorld b e opts (Suc i) ?w1 (m - 1)) = (r, w')"
      by auto
    obtain m' where m': "m = Suc m'"
      using m(1) by (cases m) auto
    have w0: "w0 = snd (request b e opts w)"
      using req by simp
    have "attemptWorld b e opts i w (Suc m - 1) = attemptWorld b e opts (Suc i) ?w1 (m - 1)"
      using attemptWorld_shift [of b e opts i w m'] by (simp add: m' w0)
    then have "request b e opts (attemptWorld b e opts i w (Suc m - 1)) = (r, w')"
      using m(3) by simp
    moreover have "calls w' = calls w + Suc m"
      using m(2) by (simp add: sleep_effect eff)
    ultimately show ?thesis
      by (intro exI [of _ "Suc m"]) simp
  qed
qed

text \<open>
  Evaluation of the model on the sample environments.
\<close>

lemmas eval_defs =
  logMood_def logMoodTry_def fetchMoodHistory_def fetchFailed_def retryRequest_def
  retryLoop.simps request_def handleResponse_def buildConfig_def submitOptions_def sleep_def
  emit_def showLoadingState_def updateMoodUI_def showNotification_def
  showSuccessNotification_def showErrorNotification_def handleMoodLogError_def
  createMoodChart_def validateMoodInput_def MOOD_MAPPINGS_lookup_def MOOD_MAPPINGS_def
  objectPrototypeKeys_def MoodCache_get_def MoodCache_set_def MoodCache_clear_def
  MoodCache_new_def MoodTracker_new_def processHistoryData_def daysLoop.simps
  entryMatches_def sampleWorld_def sampleNet_def sampleTracker_def
  fixedOffsetCalendar_def trim_def isWhiteSpace_def API_ENDPOINT_def
  HISTORY_ENDPOINT_def RETRY_ATTEMPTS_def RETRY_DELAY_def CACHE_DURATION_def emptyOptions_def
  Let_def msPerDay_def successText_def errorNotificationText_def showNat.simps digitChar_def
  orElse_def outcome_def

lemma sample_retry:
  "fst (retryRequest ''http://localhost:5000'' API_ENDPOINT emptyOptions 3 sampleWorld) = Inr (PObject None None)"
  "trace (snd (retryRequest ''http://localhost:5000'' API_ENDPOINT emptyOptions 3 sampleWorld))
     = (let cfg = buildConfig ''http://localhost:5000'' API_ENDPOINT emptyOptions sampleWorld in [EvFetch cfg, EvSleep 1000, EvFetch cfg, EvSleep 2000, EvFetch cfg])"
  "now (snd (retryRequest ''http://localhost:5000'' API_ENDPOINT emptyOptions 3 sampleWorld))
     = now sampleWorld + 3060"
  by (simp_all add: retryRequest_def retryLoop.simps request_def sampleWorld_def sampleNet_def
      handleResponse_def sleep_def buildConfig_def emptyOptions_def RETRY_DELAY_def Let_def)

lemma sample_logMood:
  "fst (logMood (JStr ''Happy'') (JNum 5) (sampleWorld, sampleTracker)) = Inr (PObject None None)"
  by (simp add: eval_defs)

lemma constructor_logMood:
  "fst (logMood (JStr ''constructor'') (JNum 3) (sampleWorld, sampleTracker)) = Inr (PObject None None)"
  "calls (fst (snd (logMood (JStr ''constructor'') (JNum 3) (sampleWorld, sampleTracker)))) = 4"
  by (simp_all add: eval_defs)

lemma unauthorized_logMood:
  "fst (logMood (JStr ''Happy'') (JNum 1) (sampleWorld\<lparr>net := unauthorizedNet\<rparr>, sampleTracker)) = Inl (Error ''HTTP 401: Unauthorized'')"
  "errorNotificationText (Error ''HTTP 401: Unauthorized'') = ''Failed to log mood. Please log in again.''"
  by (simp_all add: eval_defs unauthorizedNet_def)

lemma sample_history:
  "dataPoints (processHistoryData (fixedOffsetCalendar 0 (\<lambda>t. ''day'')) 1704898800000 sampleHistory) = [None, None, None, None, None, None, Some 4]"
  by (simp add: eval_defs sampleHistory_def)

text \<open>
  C2. For every endpoint, options and number of attempts \<open>n \<ge> 1\<close>, a call of
  \<^verbatim>\<open>retryRequest\<close> makes \<open>m\<close> requests with \<open>1 \<le> m \<le> n\<close>. Its trace is the
  \<open>m\<close> requests, each but the last followed by a wait, and the waits are
  \<open>1000 * 1, 1000 * 2, \<dots>\<close>, whatever the kind of the failure. Every request before the
  last one failed, and the result is the outcome of the last request, unchanged. A failure is
  returned only when all \<open>n\<close> attempts are used up: if the attempt with index \<open>k < n\<close> is
  the first to succeed, its result is returned after exactly \<open>k + 1\<close> requests, and if all
  \<open>n\<close> attempts fail, the error of the last attempt is the one thrown. The waits pass on
  the clock before the next attempt: the attempt with index \<open>j\<close> is issued when, for every
  earlier attempt \<open>k\<close>, its latency and then its wait of \<open>1000 * (k + 1)\<close> milliseconds
  have elapsed; the call returns from the last request, issued in that world, and the clock
  then stands at the start plus all latencies plus all waits.
\<close>

theorem retryRequest_contract:
  assumes "1 \<le> n" and "retryRequest b e opts n w = (r, w')"
  shows "\<exists>m. 1 \<le> m \<and> int m \<le> n
        \<and> calls w' = calls w + m
        \<and> trace w' = trace w @ retryTrace (buildConfig b e opts w) 0 m
        \<and> delays (retryTrace (buildConfig b e opts w) 0 m) = map (\<lambda>j. 1000 * int j) [1..<m]
        \<and> (\<forall>j<m - 1. isl (outcome w j))
        \<and> r = outcome w (m - 1)
        \<and> (isl r \<longrightarrow> int m = n)
        \<and> (\<forall>k p. int k < n \<and> (\<forall>j<k. isl (outcome w j)) \<and> outcome w k = Inr p
               \<longrightarrow> r = Inr p \<and> m = Suc k)
        \<and> ((\<forall>j. int j < n \<longrightarrow> isl (outcome w j))
               \<longrightarrow> int m = n \<and> r = outcome w (nat n - 1))
        \<and> request b e opts (attemptWorld b e opts 0 w (m - 1)) = (r, w')
        \<and> (\<forall>j<m. calls (attemptWorld b e opts 0 w j) = calls w + j
               \<and> now (attemptWorld b e opts 0 w j)
                   = now w + (\<Sum>k<j. latency w k + 1000 * (int k + 1)))
        \<and> now w' = now w + (\<Sum>k<m - 1. latency w k + 1000 * (int k + 1))
                 + latency w (m - 1)"
proof -
  have i0: "int 0 < n" using assms(1) by simp
  from retryLoop_run [OF i0 assms(2) [unfolded retryRequest_def]]
  obtain m where m: "1 \<le> m" "int m \<le> n" "calls w' = calls w + m"
      "trace w' = trace w @ retryTrace (buildConfig b e opts w) 0 m"
      "\<forall>j<m - 1. isl (outcome w j)" "r = outcome w (m - 1)" "isl r \<longrightarrow> int m = n"
    by auto
  from retryLoop_last [OF i0 assms(2) [unfolded retryRequest_def]]
  obtain m2 where m2: "calls w' = calls w + m2"
      "request b e opts (attemptWorld b e opts 0 w (m2 - 1)) = (r, w')"
    by auto
  have "m2 = m" using m(3) m2(1) by simp
  then have last: "request b e opts (attemptWorld b e opts 0 w (m - 1)) = (r, w')"
    using m2(2) by simp
  have issue: "\<forall>j<m. calls (attemptWorld b e opts 0 w j) = calls w + j
               \<and> now (attemptWorld b e opts 0 w j)
                   = now w + (\<Sum>k<j. latency w k + 1000 * (int k + 1))"
    using attemptWorld_effect [of b e opts 0 w] by (simp add: RETRY_DELAY_def)
  have "w' = snd (request b e opts (attemptWorld b e opts 0 w (m - 1)))"
    using last by simp
  then have "now w' = now (attemptWorld b e opts 0 w (m - 1))
                 + latency (attemptWorld b e opts 0 w (m - 1)) 0"
    by (simp add: request_now)
  moreover have "latency (attemptWorld b e opts 0 w (m - 1)) 0 = latency w (m - 1)"
    using attemptWorld_effect [of b e opts 0 w "m - 1"] by (simp add: latency_def)
  ultimately have clock: "now w' = now w + (\<Sum>k<m - 1. latency w k + 1000 * (int k + 1))
                 + latency w (m - 1)"
    using attemptWorld_effect [of b e opts 0 w "m - 1"] by (simp add: RETRY_DELAY_def)
  have d: "delays (retryTrace (buildConfig b e opts w) 0 m) = map (\<lambda>j. 1000 * int j) [1..<m]"
    by (simp add: delays_retryTrace RETRY_DELAY_def)
  have first: "r = Inr p \<and> m = Suc k"
    if k: "int k < n" "\<forall>j<k. isl (outcome w j)" "outcome w k = Inr p" for k p
  proof -
    have "\<not> k < m - 1"
      using m(5) k(3) by auto
    moreover have "\<not> m - 1 < k"
    proof
      assume lt: "m - 1 < k"
      then have "isl r" using k(2) m(6) by simp
      then have "int m = n" using m(7) by simp
      then show False using lt k(1) m(1) by linarith
    qed
    ultimately have "m - 1 = k" by simp
    then show ?thesis using m(1) m(6) k(3) by auto
  qed
  have allfail: "int m = n \<and> r = outcome w (nat n - 1)"
    if f: "\<forall>j. int j < n \<longrightarrow> isl (outcome w j)"
  proof -
    have "int (m - 1) < n" using m(1) m(2) by linarith
    then have "isl r" using f m(6) by simp
    then have "int m = n" using m(7) by simp
    then show ?thesis using m(6) by auto
  qed
  from m d first allfail last issue clock show ?thesis by blast
qed

text \<open>
  The theorem on the sample network, where attempts 1 and 2 fail and attempt 3 succeeds:
  the success is returned after waits of 1000 and 2000 milliseconds, 3060 milliseconds
  after the call (latencies of 30, 20 and 10 milliseconds and the two waits).
\<close>

theorem retryRequest_contract_witness:
  "(1::int) \<le> 3
   \<and> fst (retryRequest ''http://localhost:5000'' API_ENDPOINT emptyOptions 3 sampleWorld)
       = Inr (PObject None None)
   \<and> delays (trace (snd (retryRequest ''http://localhost:5000'' API_ENDPOINT emptyOptions 3
        sampleWorld))) = [1000, 2000]
   \<and> (\<exists>m. 1 \<le> m \<and> int m \<le> 3
        \<and> calls (snd (retryRequest ''http://localhost:5000'' API_ENDPOINT emptyOptions 3
              sampleWorld)) = calls sampleWorld + m
        \<and> fst (retryRequest ''http://localhost:5000'' API_ENDPOINT emptyOptions 3 sampleWorld)
            = outcome sampleWorld (m - 1)
        \<and> now (snd (retryRequest ''http://localhost:5000'' API_ENDPOINT emptyOptions 3
              sampleWorld))
            = now sampleWorld + (\<Sum>k<m - 1. latency sampleWorld k + 1000 * (int k + 1))
                + latency sampleWorld (m - 1))
   \<and> now (snd (retryRequest ''http://localhost:5000'' API_ENDPOINT emptyOptions 3 sampleWorld))
       = now sampleWorld + 3060"
proof -
  let ?R = "retryRequest ''http://localhost:5000'' API_ENDPOINT emptyOptions 3 sampleWorld"
  have run: "?R = (fst ?R, snd ?R)" by simp
  have n: "(1::int) \<le> 3" by simp
  from retryRequest_contract [OF n run] obtain m where
    "1 \<le> m" "int m \<le> 3" "calls (snd ?R) = calls sampleWorld + m"
    "fst ?R = outcome sampleWorld (m - 1)"
    "now (snd ?R) = now sampleWorld + (\<Sum>k<m - 1. latency sampleWorld k + 1000 * (int k + 1))
       + latency sampleWorld (m - 1)"
    by blast
  then have "\<exists>m. 1 \<le> m \<and> int m \<le> 3 \<and> calls (snd ?R) = calls sampleWorld + m
      \<and> fst ?R = outcome sampleWorld (m - 1)
      \<and> now (snd ?R) = now sampleWorld
            + (\<Sum>k<m - 1. latency sampleWorld k + 1000 * (int k + 1))
            + latency sampleWorld (m - 1)"
    by blast
  moreover have "delays (trace (snd ?R)) = [1000, 2000]"
    by (simp add: sample_retry(2) Let_def)
  ultimately show ?thesis
    using sample_retry(1) sample_retry(3) by simp
qed

section \<open>The seven-day series\<close>

lemma upt_0_7: "[0..<7] = [0, 1, 2, 3, 4, 5, 6 :: nat]"
  by code_simp

lemma daysLoop_unrolled:
  "daysLoop c today history 6 [] [] =
     (map (\<lambda>k. dateLabel c (addDays c today (int k - 6))) [0..<7],
      map (\<lambda>k. slotOf c history (addDays c today (int k - 6))) [0..<7])"
  by (simp add: daysLoop.simps [of _ _ _ 6] daysLoop.simps [of _ _ _ 5] daysLoop.simps [of _ _ _ 4] daysLoop.simps [of _ _ _ 3]
      daysLoop.simps [of _ _ _ 2] daysLoop.simps [of _ _ _ 1] daysLoop.simps [of _ _ _ 0] daysLoop.simps [of _ _ _ "-1"]
      slotOf_def upt_0_7 Let_def)






text \<open>
  C6. \<^verbatim>\<open>processHistoryData\<close> is idempotent for a fixed today: the
  \<^verbatim>\<open>rawHistory\<close> field of its output is the input, untouched, and applying
  \<^verbatim>\<open>processHistoryData\<close> to that field, at any clock reading of the same day (one
  with the same local midnight), reproduces the series: the same labels and the same data
  points, 7 of each, and the same raw history.
\<close>

theorem processHistoryData_idempotent:
  assumes "startOfDay c clock' = startOfDay c clock"
  shows "rawHistory (processHistoryData c clock history) = history
   \<and> labels (processHistoryData c clock' (rawHistory (processHistoryData c clock history)))
       = labels (processHistoryData c clock history)
   \<and> dataPoints (processHistoryData c clock' (rawHistory (processHistoryData c clock history)))
       = dataPoints (processHistoryData c clock history)
   \<and> rawHistory (processHistoryData c clock' (rawHistory (processHistoryData c clock history)))
       = rawHistory (processHistoryData c clock history)
   \<and> length (labels
         (processHistoryData c clock' (rawHistory (processHistoryData c clock history)))) = 7
   \<and> length (dataPoints
         (processHistoryData c clock' (rawHistory (processHistoryData c clock history)))) = 7"
proof -
  have raw: "rawHistory (processHistoryData c t h) = h" for t h
    by (simp add: processHistoryData_def Let_def split: prod.splits)
  have same: "labels (processHistoryData c clock' h) = labels (processHistoryData c clock h)"
    "dataPoints (processHistoryData c clock' h) = dataPoints (processHistoryData c clock h)"
    for h
    using assms by (simp_all add: processHistoryData_def Let_def)
  have len: "length (labels (processHistoryData c t h)) = 7"
    "length (dataPoints (processHistoryData c t h)) = 7" for t h
    by (simp_all add: processHistoryData_def daysLoop_unrolled Let_def)
  show ?thesis
    by (simp add: raw same len)
qed

text \<open>
  The theorem on the sample history, processed in the afternoon and fed back one
  millisecond before the next midnight.
\<close>

theorem processHistoryData_idempotent_witness:
  "startOfDay (fixedOffsetCalendar 0 (\<lambda>t. ''day'')) 1704931199999
     = startOfDay (fixedOffsetCalendar 0 (\<lambda>t. ''day'')) 1704898800000
   \<and> dataPoints (processHistoryData (fixedOffsetCalendar 0 (\<lambda>t. ''day'')) 1704931199999
        (rawHistory (processHistoryData (fixedOffsetCalendar 0 (\<lambda>t. ''day'')) 1704898800000
           sampleHistory)))
       = [None, None, None, None, None, None, Some 4]
   \<and> length (labels (processHistoryData (fixedOffsetCalendar 0 (\<lambda>t. ''day'')) 1704931199999
        (rawHistory (processHistoryData (fixedOffsetCalendar 0 (\<lambda>t. ''day'')) 1704898800000
           sampleHistory)))) = 7"
proof -
  let ?c = "fixedOffsetCalendar 0 (\<lambda>t. ''day'')"
  have day: "startOfDay ?c 1704931199999 = startOfDay ?c 1704898800000"
    by (simp add: fixedOffsetCalendar_def msPerDay_def)
  from processHistoryData_idempotent [OF day, of sampleHistory]
  have "dataPoints (processHistoryData ?c 1704931199999
          (rawHistory (processHistoryData ?c 1704898800000 sampleHistory)))
        = dataPoints (processHistoryData ?c 1704898800000 sampleHistory)"
    and "length (labels (processHistoryData ?c 1704931199999
          (rawHistory (processHistoryData ?c 1704898800000 sampleHistory)))) = 7"
    by blast+
  then show ?thesis
    using day by (simp add: sample_history)
qed

section \<open>Fetching the history\<close>

lemma createMoodChart_effect:
  assumes "createMoodChart ls ds (w, t) = (w', t')"
  shows "\<exists>evs. trace w' = trace w @ evs
           \<and> (\<forall>ev\<in>set evs. ev = EvChartDestroy \<or> ev = EvChartCreate ls ds)"
    and "calls w' = calls w" and "net w' = net w" and "now w' = now w"
    and "token w' = token w" and "cal w' = cal w" and "mountPresent w' = mountPresent w"
    and "cache t' = cache t" and "isLoading t' = isLoading t" and "apiClient t' = apiClient t"
    and "mountPresent w \<longrightarrow> chartInstance t' = Some (ls, ds)"
  using assms
  by (auto simp: createMoodChart_def emit_def Let_def split: if_splits)

lemma emit_effect:
  "trace (emit ev w) = trace w @ [ev]" "calls (emit ev w) = calls w" "net (emit ev w) = net w"
  "token (emit ev w) = token w" "now (emit ev w) = now w" "userAgent (emit ev w) = userAgent w"
  "timeZone (emit ev w) = timeZone w" "cal (emit ev w) = cal w"
  "mountPresent (emit ev w) = mountPresent w"
  by (simp_all add: emit_def)

lemma quiet_simps:
  "quiet []" "quiet (evs @ evs') \<longleftrightarrow> quiet evs \<and> quiet evs'"
  "quiet [EvNotify msg type]"
  by (auto simp: quiet_def)

lemma fetchFailed_effect:
  assumes "fetchFailed err (w, t) = (r, w', t')"
  shows "r = Inl err"
    and "\<exists>evs. trace w' = trace w @ evs \<and> quiet evs"
    and "calls w' = calls w" and "isLoading t' = isLoading t"
proof -
  let ?w2 = "showErrorNotification ''Unable to load mood history. Please try again later.''
               (emit (EvConsoleError ''Failed to fetch mood history:'' err) w)"
  obtain w3 t3 where ch: "createMoodChart [] [] (?w2, t) = (w3, t3)"
    by fastforce
  have eq: "(r, w', t') = (Inl err, w3, t3)"
    using assms ch by (simp add: fetchFailed_def Let_def)
  from createMoodChart_effect(1) [OF ch] obtain evs where
    evs: "trace w3 = trace ?w2 @ evs" "\<forall>ev\<in>set evs. ev = EvChartDestroy \<or> ev = EvChartCreate [] []"
    by blast
  show "r = Inl err" using eq by simp
  have "trace w' = trace w @ ([EvConsoleError ''Failed to fetch mood history:'' err,
           EvNotify ''Unable to load mood history. Please try again later.'' ''error''] @ evs)"
    using eq evs(1) by (simp add: showErrorNotification_def showNotification_def emit_def)
  moreover have "quiet ([EvConsoleError ''Failed to fetch mood history:'' err,
           EvNotify ''Unable to load mood history. Please try again later.'' ''error''] @ evs)"
    using evs(2) by (auto simp: quiet_def)
  ultimately show "\<exists>evs. trace w' = trace w @ evs \<and> quiet evs" by blast
  show "calls w' = calls w"
    using eq createMoodChart_effect(2) [OF ch]
    by (simp add: showErrorNotification_def showNotification_def emit_def)
  show "isLoading t' = isLoading t"
    using eq createMoodChart_effect(9) [OF ch] by simp
qed

lemma fetchMoodHistory_miss:
  assumes miss: "forceRefresh \<or> cache t ''mood_history'' = None"
    and run: "fetchMoodHistory forceRefresh (w, t) = (r, w', t')"
  shows "\<exists>k rest. 1 \<le> k \<and> k \<le> 3 \<and> calls w' = calls w + k
           \<and> trace w' = trace w
                @ retryTrace (buildConfig (apiClient t) HISTORY_ENDPOINT emptyOptions w) 0 k @ rest
           \<and> quiet rest \<and> isLoading t' = isLoading t"
proof -
  let ?cfg = "buildConfig (apiClient t) HISTORY_ENDPOINT emptyOptions w"
  have look: "(if \<not> forceRefresh then MoodCache_get ''mood_history'' (now w) (cache t)
               else (None, cache t)) = (None, cache t)"
    using miss by (auto simp: MoodCache_get_def)
  obtain r1 w1 where rr:
    "retryRequest (apiClient t) HISTORY_ENDPOINT emptyOptions RETRY_ATTEMPTS w = (r1, w1)"
    by fastforce
  have "1 \<le> RETRY_ATTEMPTS" by (simp add: RETRY_ATTEMPTS_def)
  from retryRequest_run [OF this rr] obtain k where
    k: "1 \<le> k" "k \<le> 3" "calls w1 = calls w + k" "trace w1 = trace w @ retryTrace ?cfg 0 k"
    by (auto simp: RETRY_ATTEMPTS_def)
  have fail: ?thesis if f: "fetchFailed err (w1, t) = (r, w', t')" for err
  proof -
    from fetchFailed_effect [OF f] obtain evs where
      "trace w' = trace w1 @ evs" "quiet evs" "calls w' = calls w1" "isLoading t' = isLoading t"
      by blast
    then show ?thesis using k by auto
  qed
  show ?thesis
  proof (cases r1)
    case (Inl err)
    then have "fetchFailed err (w1, t) = (r, w', t')"
      using run by (simp add: fetchMoodHistory_def look rr)
    then show ?thesis by (rule fail)
  next
    case (Inr p)
    show ?thesis
    proof (cases p)
      case (PArray history)
      let ?cd = "processHistoryData (cal w1) (now w1) history"
      let ?t2 = "t\<lparr>cache := MoodCache_set ''mood_history'' ?cd CACHE_DURATION (now w1) (cache t)\<rparr>"
      obtain w3 t3 where ch: "createMoodChart (labels ?cd) (dataPoints ?cd) (w1, ?t2) = (w3, t3)"
        by fastforce
      have eq: "(r, w', t') = (Inr ?cd, w3, t3)"
        using run Inr PArray ch by (simp add: fetchMoodHistory_def look rr Let_def)
      from createMoodChart_effect(1) [OF ch] obtain evs where
        evs: "trace w3 = trace w1 @ evs"
          "\<forall>ev\<in>set evs. ev = EvChartDestroy \<or> ev = EvChartCreate (labels ?cd) (dataPoints ?cd)"
        by blast
      have "quiet evs" using evs(2) by (auto simp: quiet_def)
      moreover have "calls w' = calls w + k"
        using eq createMoodChart_effect(2) [OF ch] k(3) by simp
      moreover have "isLoading t' = isLoading t"
        using eq createMoodChart_effect(9) [OF ch] by simp
      moreover have "trace w' = trace w @ retryTrace ?cfg 0 k @ evs"
        using eq evs(1) k(4) by simp
      ultimately show ?thesis using k(1,2) by blast
    next
      case PUndefined
      then have "fetchFailed (TypeError ''history.find is not a function'') (w1, t) = (r, w', t')"
        using run Inr by (simp add: fetchMoodHistory_def look rr)
      then show ?thesis by (rule fail)
    next
      case PNull
      then have "fetchFailed (TypeError ''history.find is not a function'') (w1, t) = (r, w', t')"
        using run Inr by (simp add: fetchMoodHistory_def look rr)
      then show ?thesis by (rule fail)
    next
      case (PObject m1 m2)
      then have "fetchFailed (TypeError ''history.find is not a function'') (w1, t) = (r, w', t')"
        using run Inr by (simp add: fetchMoodHistory_def look rr)
      then show ?thesis by (rule fail)
    qed
  qed
qed

text \<open>
  C9. When \<^verbatim>\<open>fetchMoodHistory\<close> is called without \<^verbatim>\<open>forceRefresh\<close> and the
  cache holds an entry under \<^verbatim>\<open>mood_history\<close> that is not expired, the call returns
  the cached series; its only effect is that of \<^verbatim>\<open>createMoodChart\<close> on the cached
  labels and data points (which shows them when the mount point exists); it makes no
  request and leaves the cache as it was.
\<close>

theorem fetchMoodHistory_cache_hit:
  assumes "cache t ''mood_history'' = Some item" and "now w \<le> expiry item"
  shows "\<exists>w' t'. fetchMoodHistory False (w, t) = (Inr (data item), w', t')
      \<and> (w', t') = createMoodChart (labels (data item)) (dataPoints (data item)) (w, t)
      \<and> calls w' = calls w
      \<and> cache t' = cache t
      \<and> trace w' = trace w @
           (if mountPresent w
            then (if chartInstance t \<noteq> None then [EvChartDestroy] else [])
                 @ [EvChartCreate (labels (data item)) (dataPoints (data item))]
            else [])
      \<and> (mountPresent w \<longrightarrow>
            chartInstance t' = Some (labels (data item), dataPoints (data item)))"
  using assms
  by (simp add: fetchMoodHistory_def MoodCache_get_def createMoodChart_def emit_def Let_def)

text \<open>
  The theorem on a tracker whose cache was filled 100 seconds before the call.
\<close>

theorem fetchMoodHistory_cache_hit_witness:
  "cache cachedTracker ''mood_history''
     = Some \<lparr>data = sampleSeries, expiry = 1704899000000\<rparr>
   \<and> now sampleWorld \<le> 1704899000000
   \<and> (\<exists>w' t'. fetchMoodHistory False (sampleWorld, cachedTracker) = (Inr sampleSeries, w', t')
        \<and> calls w' = calls sampleWorld
        \<and> cache t' = cache cachedTracker
        \<and> trace w' = [EvChartCreate (labels sampleSeries) (dataPoints sampleSeries)]
        \<and> chartInstance t' = Some (labels sampleSeries, dataPoints sampleSeries))"
proof -
  have hit: "cache cachedTracker ''mood_history''
     = Some \<lparr>data = sampleSeries, expiry = 1704899000000\<rparr>"
    by (simp add: cachedTracker_def MoodCache_set_def CACHE_DURATION_def)
  have fresh: "now sampleWorld \<le> expiry \<lparr>data = sampleSeries, expiry = 1704899000000\<rparr>"
    by (simp add: sampleWorld_def)
  have env: "mountPresent sampleWorld" "chartInstance cachedTracker = None"
    "trace sampleWorld = []"
    by (simp_all add: sampleWorld_def cachedTracker_def sampleTracker_def MoodTracker_new_def)
  from fetchMoodHistory_cache_hit [OF hit fresh] hit fresh env
  show ?thesis by auto
qed

section \<open>Logging a mood\<close>

lemma logMoodTry_run:
  assumes run: "logMoodTry (JStr m) v (w, t) = (r, w', t')"
  shows "\<exists>k rest. 1 \<le> k \<and> k \<le> 3
           \<and> trace w' = trace w
                @ retryTrace (buildConfig (apiClient t) API_ENDPOINT (submitOptions m v w) w) 0 k
                @ rest
           \<and> isLoading t' = isLoading t
           \<and> (\<not> isl r \<longrightarrow>
                (\<exists>k2 rest2. 1 \<le> k2 \<and> k2 \<le> 3
                   \<and> rest = [EvMoodUI m, EvCacheClear]
                        @ retryTrace (buildConfig (apiClient t) HISTORY_ENDPOINT emptyOptions w) 0 k2
                        @ rest2
                   \<and> quiet rest2 \<and> r = outcome w (k - 1) \<and> calls w' = calls w + k + k2))"
proof -
  let ?post = "buildConfig (apiClient t) API_ENDPOINT (submitOptions m v w) w"
  let ?get = "buildConfig (apiClient t) HISTORY_ENDPOINT emptyOptions w"
  obtain r1 w1 where rr:
    "retryRequest (apiClient t) API_ENDPOINT (submitOptions m v w) RETRY_ATTEMPTS w = (r1, w1)"
    by fastforce
  have "1 \<le> RETRY_ATTEMPTS" by (simp add: RETRY_ATTEMPTS_def)
  from retryRequest_run [OF this rr] obtain k where
    k: "1 \<le> k" "k \<le> 3" "calls w1 = calls w + k" "trace w1 = trace w @ retryTrace ?post 0 k"
       "r1 = outcome w (k - 1)" "token w1 = token w"
    by (auto simp: RETRY_ATTEMPTS_def)
  show ?thesis
  proof (cases r1)
    case (Inl err)
    then have "(r, w', t') = (Inl err, w1, t)"
      using run rr by (simp add: logMoodTry_def)
    then have "trace w' = trace w @ retryTrace ?post 0 k @ []" "isLoading t' = isLoading t" "isl r"
      using k(4) by auto
    then show ?thesis using k(1,2) by blast
  next
    case (Inr result)
    let ?w3 = "emit EvCacheClear (updateMoodUI m w1)"
    let ?t2 = "t\<lparr>cache := MoodCache_clear (cache t)\<rparr>"
    obtain r4 w4 t4 where fm: "fetchMoodHistory False (?w3, ?t2) = (r4, w4, t4)"
      using prod_cases3 by blast
    have "False \<or> cache ?t2 ''mood_history'' = None"
      by (simp add: MoodCache_clear_def)
    from fetchMoodHistory_miss [OF this fm] obtain k2 rest2 where
      k2: "1 \<le> k2" "k2 \<le> 3" "calls w4 = calls ?w3 + k2"
          "trace w4 = trace ?w3
             @ retryTrace (buildConfig (apiClient ?t2) HISTORY_ENDPOINT emptyOptions ?w3) 0 k2 @ rest2"
          "quiet rest2" "isLoading t4 = isLoading ?t2"
      by blast
    have cfg: "buildConfig b e opts (emit EvCacheClear (emit (EvMoodUI m) w1))
                 = buildConfig b e opts w" for b e opts
      by (rule buildConfig_token) (simp add: emit_effect k(6))
    have tr4: "trace w4 = trace w @ retryTrace ?post 0 k
                 @ ([EvMoodUI m, EvCacheClear] @ retryTrace ?get 0 k2 @ rest2)"
      using k2(4) k(4) by (simp add: cfg emit_effect updateMoodUI_def)
    have c4: "calls w4 = calls w + k + k2"
      using k2(3) k(3) by (simp add: emit_effect updateMoodUI_def)
    show ?thesis
    proof (cases r4)
      case (Inl err)
      then have "(r, w', t') = (Inl err, w4, t4)"
        using run rr Inr fm by (simp add: logMoodTry_def Let_def)
      then have "trace w' = trace w @ retryTrace ?post 0 k
                 @ ([EvMoodUI m, EvCacheClear] @ retryTrace ?get 0 k2 @ rest2)"
          "isLoading t' = isLoading t" "isl r"
        using tr4 k2(6) by auto
      then show ?thesis using k(1,2) by blast
    next
      case (Inr cd)
      then have eq: "(r, w', t') = (Inr result, showSuccessNotification (successText m) w4, t4)"
        using run rr \<open>r1 = Inr result\<close> fm by (simp add: logMoodTry_def Let_def)
      let ?rest2 = "rest2 @ [EvNotify (successText m) ''success'']"
      have "trace w' = trace w @ retryTrace ?post 0 k
                 @ ([EvMoodUI m, EvCacheClear] @ retryTrace ?get 0 k2 @ ?rest2)"
        using eq tr4
        by (simp add: showSuccessNotification_def showNotification_def emit_effect)
      moreover have "quiet ?rest2" using k2(5) by (simp add: quiet_simps)
      moreover have "isLoading t' = isLoading t" using eq k2(6) by simp
      moreover have "r = outcome w (k - 1)" using eq k(5) \<open>r1 = Inr result\<close> by simp
      moreover have "calls w' = calls w + k + k2"
        using eq c4
        by (simp add: showSuccessNotification_def showNotification_def emit_effect)
      ultimately show ?thesis using k(1,2) k2(1,2) by blast
    qed
  qed
qed

lemma validateMoodInput_string:
  "validateMoodInput mood v \<Longrightarrow> \<exists>m. mood = JStr m"
  by (cases mood) (simp_all add: validateMoodInput_def)

lemma showLoadingState_frame:
  "submitOptions m v (showLoadingState b w) = submitOptions m v w"
  "buildConfig base e opts (showLoadingState b w) = buildConfig base e opts w"
  "outcome (showLoadingState b w) k = outcome w k"
  "calls (showLoadingState b w) = calls w"
  "trace (showLoadingState b w) = trace w @ [EvLoadingState b]"
  by (simp_all add: showLoadingState_def emit_def submitOptions_def buildConfig_def outcome_def)

lemma logMood_starts_with_submission:
  assumes "validateMoodInput (JStr m) v" and "\<not> isLoading t"
  shows "\<exists>rest. trace (fst (snd (logMood (JStr m) v (w, t))))
           = trace w @ EvLoadingState True
               # EvFetch (buildConfig (apiClient t) API_ENDPOINT (submitOptions m v w) w) # rest"
proof -
  let ?w1 = "showLoadingState True w"
  let ?t1 = "t\<lparr>isLoading := True\<rparr>"
  let ?cfg = "buildConfig (apiClient t) API_ENDPOINT (submitOptions m v w) w"
  obtain r w2 t2 where body: "logMoodTry (JStr m) v (?w1, ?t1) = (r, w2, t2)"
    using prod_cases3 by blast
  from logMoodTry_run [OF body] obtain k rest where
    k: "1 \<le> k" "trace w2 = trace ?w1 @ retryTrace ?cfg 0 k @ rest"
    by (auto simp: showLoadingState_frame)
  from retryTrace_first [OF k(1), of ?cfg 0] obtain rest0 where
    "retryTrace ?cfg 0 k = EvFetch ?cfg # rest0"
    by blast
  then have tr2: "trace w2 = trace w @ EvLoadingState True # EvFetch ?cfg # (rest0 @ rest)"
    using k(2) by (simp add: showLoadingState_frame)
  have "\<exists>evs. trace (fst (snd (logMood (JStr m) v (w, t)))) = trace w2 @ evs"
    using assms body
    by (cases r)
       (simp_all add: logMood_def Let_def handleMoodLogError_def showErrorNotification_def
          showNotification_def showLoadingState_def emit_def)
  then show ?thesis using tr2 by auto
qed

text \<open>
  C8. In every successful call of \<^verbatim>\<open>logMood\<close> the trace is: the loading state,
  then the requests of the submission (between 1 and 3 of them, with their waits, the last
  one returning the result), then the update of the mood buttons and the clearing of the
  cache, then the requests of the history refetch (between 1 and 3), then a rest that holds
  no request and no clearing of the cache. So the submission completes before the cache is
  cleared, and the cache is cleared before the refetch begins.
\<close>

theorem logMood_success_order:
  assumes "logMood mood v (w, t) = (Inr result, w', t')"
  shows "\<exists>m k k2 rest. mood = JStr m \<and> 1 \<le> k \<and> k \<le> 3 \<and> 1 \<le> k2 \<and> k2 \<le> 3
      \<and> trace w' = trace w @ [EvLoadingState True]
           @ retryTrace (buildConfig (apiClient t) API_ENDPOINT (submitOptions m v w) w) 0 k
           @ [EvMoodUI m, EvCacheClear]
           @ retryTrace (buildConfig (apiClient t) HISTORY_ENDPOINT emptyOptions w) 0 k2
           @ rest
      \<and> (\<forall>ev\<in>set rest. (\<forall>c. ev \<noteq> EvFetch c) \<and> ev \<noteq> EvCacheClear)
      \<and> outcome w (k - 1) = Inr result
      \<and> calls w' = calls w + k + k2"
proof -
  have valid: "validateMoodInput mood v" and idle: "\<not> isLoading t"
    using assms by (auto simp: logMood_def split: if_splits)
  obtain m where m: "mood = JStr m"
    using validateMoodInput_string [OF valid] by blast
  let ?w1 = "showLoadingState True w"
  let ?t1 = "t\<lparr>isLoading := True\<rparr>"
  obtain r w2 t2 where body: "logMoodTry (JStr m) v (?w1, ?t1) = (r, w2, t2)"
    using prod_cases3 by blast
  have eq: "(Inr result, w', t')
     = (r, showLoadingState False (case r of Inl error \<Rightarrow> handleMoodLogError error w2
                                    | Inr result \<Rightarrow> w2), t2\<lparr>isLoading := False\<rparr>)"
    using assms body valid idle by (auto simp: logMood_def Let_def m)
  then have r: "r = Inr result" by simp
  with eq have w': "w' = showLoadingState False w2" by auto
  from logMoodTry_run [OF body] r obtain k rest k2 rest2 where
    k: "1 \<le> k" "k \<le> 3" "1 \<le> k2" "k2 \<le> 3"
       "trace w2 = trace ?w1
          @ retryTrace (buildConfig (apiClient ?t1) API_ENDPOINT (submitOptions m v ?w1) ?w1) 0 k
          @ rest"
       "rest = [EvMoodUI m, EvCacheClear]
          @ retryTrace (buildConfig (apiClient ?t1) HISTORY_ENDPOINT emptyOptions ?w1) 0 k2
          @ rest2"
       "quiet rest2" "r = outcome ?w1 (k - 1)" "calls w2 = calls ?w1 + k + k2"
    by auto
  let ?rest = "rest2 @ [EvLoadingState False]"
  have "trace w' = trace w @ [EvLoadingState True]
           @ retryTrace (buildConfig (apiClient t) API_ENDPOINT (submitOptions m v w) w) 0 k
           @ [EvMoodUI m, EvCacheClear]
           @ retryTrace (buildConfig (apiClient t) HISTORY_ENDPOINT emptyOptions w) 0 k2
           @ ?rest"
    using k(5) k(6) w' by (simp add: showLoadingState_frame)
  moreover have "\<forall>ev\<in>set ?rest. (\<forall>c. ev \<noteq> EvFetch c) \<and> ev \<noteq> EvCacheClear"
    using k(7) by (auto simp: quiet_def)
  moreover have "outcome w (k - 1) = Inr result"
    using k(8) r by (simp add: showLoadingState_frame)
  moreover have "calls w' = calls w + k + k2"
    using k(9) w' by (simp add: showLoadingState_frame)
  ultimately show ?thesis using m k(1-4) by blast
qed

text \<open>
  The theorem on the sample network: three submission attempts, one history request.
\<close>

theorem logMood_success_order_witness:
  "fst (logMood (JStr ''Happy'') (JNum 5) (sampleWorld, sampleTracker)) = Inr (PObject None None)
   \<and> (\<exists>m k k2 rest. JStr ''Happy'' = JStr m \<and> 1 \<le> k \<and> k \<le> 3 \<and> 1 \<le> k2 \<and> k2 \<le> 3
      \<and> trace (fst (snd (logMood (JStr ''Happy'') (JNum 5) (sampleWorld, sampleTracker))))
          = trace sampleWorld @ [EvLoadingState True]
           @ retryTrace (buildConfig (apiClient sampleTracker) API_ENDPOINT
                (submitOptions m (JNum 5) sampleWorld) sampleWorld) 0 k
           @ [EvMoodUI m, EvCacheClear]
           @ retryTrace (buildConfig (apiClient sampleTracker) HISTORY_ENDPOINT emptyOptions
                sampleWorld) 0 k2
           @ rest
      \<and> (\<forall>ev\<in>set rest. (\<forall>c. ev \<noteq> EvFetch c) \<and> ev \<noteq> EvCacheClear)
      \<and> outcome sampleWorld (k - 1) = Inr (PObject None None)
      \<and> calls (fst (snd (logMood (JStr ''Happy'') (JNum 5) (sampleWorld, sampleTracker))))
          = calls sampleWorld + k + k2)"
proof -
  let ?X = "logMood (JStr ''Happy'') (JNum 5) (sampleWorld, sampleTracker)"
  have run: "?X = (Inr (PObject None None), fst (snd ?X), snd (snd ?X))"
    using sample_logMood by (simp add: prod_eq_iff)
  from logMood_success_order [OF run] sample_logMood
  show ?thesis by blast
qed

text \<open>
  C5, as amended. When \<^verbatim>\<open>logMood\<close> is called while \<^verbatim>\<open>isLoading\<close> is set (a
  previous call is in flight), the call fails at once, without any request or other effect,
  and leaves world and tracker exactly as they were, so the call in flight is not affected.
  The error is the guard error when the arguments pass validation, and the validation error
  otherwise, because validation comes first.
\<close>

theorem logMood_rejected_while_submitting:
  assumes "isLoading t"
  shows "logMood mood v (w, t)
         = (Inl (Error (if validateMoodInput mood v
                        then ''Please wait for the previous mood entry to complete''
                        else ''Invalid mood data provided'')), w, t)"
  using assms by (simp add: logMood_def)

text \<open>
  The theorem on a busy tracker and valid arguments: the guard error.
\<close>

theorem logMood_rejected_while_submitting_witness:
  "isLoading (sampleTracker\<lparr>isLoading := True\<rparr>)
   \<and> logMood (JStr ''Happy'') (JNum 5) (sampleWorld, sampleTracker\<lparr>isLoading := True\<rparr>)
       = (Inl (Error ''Please wait for the previous mood entry to complete''),
          sampleWorld, sampleTracker\<lparr>isLoading := True\<rparr>)"
  using logMood_rejected_while_submitting
    [of "sampleTracker\<lparr>isLoading := True\<rparr>" "JStr ''Happy''" "JNum 5" sampleWorld]
  by (simp add: validateMoodInput_def MOOD_MAPPINGS_lookup_def MOOD_MAPPINGS_def)

text \<open>
  C5 as stated fails: on a busy tracker, arguments that do not pass validation are answered
  with the validation error, not with the guard error.
\<close>

theorem logMood_guard_counterexample:
  "isLoading (sampleTracker\<lparr>isLoading := True\<rparr>)
   \<and> fst (logMood (JStr ''Happy'') (JNum 9) (sampleWorld, sampleTracker\<lparr>isLoading := True\<rparr>))
       = Inl (Error ''Invalid mood data provided'')
   \<and> fst (logMood (JStr ''Happy'') (JNum 9) (sampleWorld, sampleTracker\<lparr>isLoading := True\<rparr>))
       \<noteq> Inl (Error ''Please wait for the previous mood entry to complete'')"
  by (simp add: logMood_def validateMoodInput_def)

text \<open>
  C7, as amended. Every error of a call of \<^verbatim>\<open>logMood\<close> that passed validation and
  the guard (a failed submission after its retries, or a failed history refresh) is the
  error raised inside the \<^verbatim>\<open>try\<close> block, unchanged, and before it reaches the caller
  it is logged and a notification of type \<^verbatim>\<open>error\<close> is shown, whose text is chosen
  by substring tests on the message: \<^verbatim>\<open>network\<close> or \<^verbatim>\<open>fetch\<close>, then
  \<^verbatim>\<open>401\<close> or \<^verbatim>\<open>unauthorized\<close>, then \<^verbatim>\<open>429\<close>, and a generic text
  otherwise.
\<close>

theorem logMood_error_notified:
  assumes "validateMoodInput mood v" and "\<not> isLoading t"
    and "logMood mood v (w, t) = (Inl err, w', t')"
  shows "(\<exists>pre. trace w' = trace w @ pre
            @ [EvConsoleError ''Mood logging failed:'' err,
               EvNotify (errorNotificationText err) ''error'',
               EvLoadingState False])
       \<and> fst (logMoodTry mood v (showLoadingState True w, t\<lparr>isLoading := True\<rparr>)) = Inl err
       \<and> errorNotificationText err = ''Failed to log mood. '' @
           (if str_includes (message err) ''network'' \<or> str_includes (message err) ''fetch''
            then ''Please check your internet connection.''
            else if str_includes (message err) ''401''
                    \<or> str_includes (message err) ''unauthorized''
            then ''Please log in again.''
            else if str_includes (message err) ''429''
            then ''Too many requests. Please wait a moment.''
            else ''Please try again later.'')"
proof -
  obtain m where m: "mood = JStr m"
    using validateMoodInput_string [OF assms(1)] by blast
  let ?w1 = "showLoadingState True w"
  let ?t1 = "t\<lparr>isLoading := True\<rparr>"
  obtain r w2 t2 where body: "logMoodTry mood v (?w1, ?t1) = (r, w2, t2)"
    using prod_cases3 by blast
  have eq: "(Inl err, w', t')
     = (r, showLoadingState False (case r of Inl error \<Rightarrow> handleMoodLogError error w2
                                    | Inr result \<Rightarrow> w2), t2\<lparr>isLoading := False\<rparr>)"
    using assms body by (auto simp: logMood_def Let_def)
  then have r: "r = Inl err" by simp
  from logMoodTry_run [OF body [unfolded m]] obtain k rest where
    "trace w2 = trace ?w1
       @ retryTrace (buildConfig (apiClient ?t1) API_ENDPOINT (submitOptions m v ?w1) ?w1) 0 k @ rest"
    by blast
  then obtain pre where pre: "trace w2 = trace w @ pre"
    by (simp add: showLoadingState_frame)
  have "trace w' = trace w @ pre
            @ [EvConsoleError ''Mood logging failed:'' err,
               EvNotify (errorNotificationText err) ''error'',
               EvLoadingState False]"
    using eq r pre
    by (auto simp: handleMoodLogError_def showErrorNotification_def showNotification_def
        showLoadingState_def emit_def)
  moreover have "fst (logMoodTry mood v (?w1, ?t1)) = Inl err"
    using body r by simp
  ultimately show ?thesis
    by (simp add: errorNotificationText_def)
qed

text \<open>
  The theorem on the network that answers 401: the notification asks to log in again.
\<close>

theorem logMood_error_notified_witness:
  "validateMoodInput (JStr ''Happy'') (JNum 1)
   \<and> \<not> isLoading sampleTracker
   \<and> fst (logMood (JStr ''Happy'') (JNum 1) (sampleWorld\<lparr>net := unauthorizedNet\<rparr>, sampleTracker))
       = Inl (Error ''HTTP 401: Unauthorized'')
   \<and> (\<exists>pre. trace (fst (snd (logMood (JStr ''Happy'') (JNum 1)
                 (sampleWorld\<lparr>net := unauthorizedNet\<rparr>, sampleTracker))))
         = trace (sampleWorld\<lparr>net := unauthorizedNet\<rparr>) @ pre
           @ [EvConsoleError ''Mood logging failed:'' (Error ''HTTP 401: Unauthorized''),
              EvNotify ''Failed to log mood. Please log in again.'' ''error'',
              EvLoadingState False])"
proof -
  let ?w = "sampleWorld\<lparr>net := unauthorizedNet\<rparr>"
  let ?X = "logMood (JStr ''Happy'') (JNum 1) (?w, sampleTracker)"
  have valid: "validateMoodInput (JStr ''Happy'') (JNum 1)"
    by (simp add: validateMoodInput_def MOOD_MAPPINGS_lookup_def MOOD_MAPPINGS_def)
  have idle: "\<not> isLoading sampleTracker"
    by (simp add: sampleTracker_def MoodTracker_new_def)
  have run: "?X = (Inl (Error ''HTTP 401: Unauthorized''), fst (snd ?X), snd (snd ?X))"
    using unauthorized_logMood(1) by (simp add: prod_eq_iff)
  from logMood_error_notified [OF valid idle run]
  have "\<exists>pre. trace (fst (snd ?X)) = trace ?w @ pre
           @ [EvConsoleError ''Mood logging failed:'' (Error ''HTTP 401: Unauthorized''),
              EvNotify (errorNotificationText (Error ''HTTP 401: Unauthorized'')) ''error'',
              EvLoadingState False]"
    by blast
  then show ?thesis
    using valid idle unauthorized_logMood by simp
qed

text \<open>
  C7 as stated fails: the validation error and the guard error are thrown before the
  \<^verbatim>\<open>try\<close> block, and the trace stays empty, so no notification is shown for them.
\<close>

theorem logMood_unnotified_counterexample:
  "fst (logMood (JStr ''Excited'') (JNum 5) (sampleWorld, sampleTracker))
       = Inl (Error ''Invalid mood data provided'')
   \<and> trace (fst (snd (logMood (JStr ''Excited'') (JNum 5) (sampleWorld, sampleTracker)))) = []
   \<and> fst (logMood (JStr ''Happy'') (JNum 5) (sampleWorld, sampleTracker\<lparr>isLoading := True\<rparr>))
       = Inl (Error ''Please wait for the previous mood entry to complete'')
   \<and> trace (fst (snd (logMood (JStr ''Happy'') (JNum 5)
        (sampleWorld, sampleTracker\<lparr>isLoading := True\<rparr>)))) = []"
  by (simp add: logMood_def validateMoodInput_def MOOD_MAPPINGS_lookup_def MOOD_MAPPINGS_def
      objectPrototypeKeys_def sampleWorld_def)

text \<open>
  Keys of the mood table.
\<close>

lemma mood_keys:
  "m \<in> fst ` set MOOD_MAPPINGS \<Longrightarrow>
   m = ''Happy'' \<or> m = ''Good'' \<or> m = ''Okay'' \<or> m = ''Worried'' \<or> m = ''Sad''"
  by (auto simp: MOOD_MAPPINGS_def)

lemma mood_key_valid:
  assumes "m \<in> fst ` set MOOD_MAPPINGS"
  shows "m \<noteq> []" "MOOD_MAPPINGS_lookup m \<noteq> None" "trim m = m"
  using mood_keys [OF assms]
  by (auto simp: MOOD_MAPPINGS_lookup_def MOOD_MAPPINGS_def trim_def isWhiteSpace_def)

text \<open>
  C10. Validation does not compare the value with the table: for every mood that is a key
  of the mood table and every value whose integer parse lies in 1..5, validation succeeds,
  whatever the numeric value of that mood in the table; on an idle tracker the call goes on
  to the submission, whose first request carries that mood and that value.
\<close>

theorem validateMoodInput_ignores_mapping_value:
  assumes "m \<in> fst ` set MOOD_MAPPINGS" and "parseInt v = Some n" and "1 \<le> n" and "n \<le> 5"
  shows "validateMoodInput (JStr m) v
       \<and> (\<not> isLoading t \<longrightarrow>
            (\<exists>rest. trace (fst (snd (logMood (JStr m) v (w, t))))
               = trace w @ EvLoadingState True
                   # EvFetch (buildConfig (apiClient t) API_ENDPOINT (submitOptions m v w) w)
                   # rest))
       \<and> opt_body (submitOptions m v w)
           = Some \<lparr>md_mood = m, md_value = Some n, md_timestamp = now w,
                    md_userAgent = userAgent w, md_timezone = timeZone w\<rparr>"
proof -
  have valid: "validateMoodInput (JStr m) v"
    using assms(2-4) mood_key_valid(1,2) [OF assms(1)]
    by (simp add: validateMoodInput_def)
  moreover have "opt_body (submitOptions m v w)
           = Some \<lparr>md_mood = m, md_value = Some n, md_timestamp = now w,
                    md_userAgent = userAgent w, md_timezone = timeZone w\<rparr>"
    using assms(2) mood_key_valid(3) [OF assms(1)] by (simp add: submitOptions_def)
  ultimately show ?thesis
    using logMood_starts_with_submission [of m v t w] by blast
qed

text \<open>
  The theorem on \<^verbatim>\<open>logMood('Happy', 1)\<close>, where the table gives 5 for the mood.
\<close>

theorem validateMoodInput_ignores_mapping_value_witness:
  "''Happy'' \<in> fst ` set MOOD_MAPPINGS
   \<and> map_option mood_value (map_of MOOD_MAPPINGS ''Happy'') = Some 5
   \<and> parseInt (JNum 1) = Some 1
   \<and> validateMoodInput (JStr ''Happy'') (JNum 1)
   \<and> (\<exists>rest. trace (fst (snd (logMood (JStr ''Happy'') (JNum 1) (sampleWorld, sampleTracker))))
         = trace sampleWorld @ EvLoadingState True
             # EvFetch (buildConfig (apiClient sampleTracker) API_ENDPOINT
                 (submitOptions ''Happy'' (JNum 1) sampleWorld) sampleWorld)
             # rest)
   \<and> opt_body (submitOptions ''Happy'' (JNum 1) sampleWorld)
       = Some \<lparr>md_mood = ''Happy'', md_value = Some 1, md_timestamp = now sampleWorld,
                md_userAgent = userAgent sampleWorld, md_timezone = timeZone sampleWorld\<rparr>"
proof -
  have key: "''Happy'' \<in> fst ` set MOOD_MAPPINGS"
    and val: "map_option mood_value (map_of MOOD_MAPPINGS ''Happy'') = Some 5"
    by (simp_all add: MOOD_MAPPINGS_def)
  have idle: "\<not> isLoading sampleTracker"
    by (simp add: sampleTracker_def MoodTracker_new_def)
  have p: "parseInt (JNum 1) = Some 1" by simp
  from validateMoodInput_ignores_mapping_value
    [OF key p, of sampleTracker sampleWorld] idle key val p
  show ?thesis by simp
qed

text \<open>
  What holds of the validation: a call that fails validation throws the validation error
  and has no effect at all; a value whose integer parse is not a number or lies outside 1..5
  fails validation; a mood for which the property read on the table gives
  \<^verbatim>\<open>undefined\<close> fails validation.
\<close>

lemma logMood_validation_error:
  "\<not> validateMoodInput mood v \<Longrightarrow>
   logMood mood v (w, t) = (Inl (Error ''Invalid mood data provided''), w, t)"
  by (simp add: logMood_def)

lemma validateMoodInput_bad_value:
  "parseInt v = None \<or> (\<exists>n. parseInt v = Some n \<and> (n < 1 \<or> 5 < n)) \<Longrightarrow>
   \<not> validateMoodInput mood v"
  by (auto simp: validateMoodInput_def)

lemma validateMoodInput_unresolved_key:
  "MOOD_MAPPINGS_lookup m = None \<Longrightarrow> \<not> validateMoodInput (JStr m) v"
  by (auto simp: validateMoodInput_def split: option.splits)

text \<open>
  C4. The claim fails on the code for a mood that is no key of the mood table but names a
  property inherited from \<^verbatim>\<open>Object.prototype\<close>: \<^verbatim>\<open>logMood('constructor', 3)\<close>
  passes validation, and on the sample network the call submits the entry and succeeds
  after 4 requests.
\<close>

theorem logMood_inherited_key_submits:
  "map_of MOOD_MAPPINGS ''constructor'' = None
   \<and> validateMoodInput (JStr ''constructor'') (JNum 3)
   \<and> fst (logMood (JStr ''constructor'') (JNum 3) (sampleWorld, sampleTracker))
       = Inr (PObject None None)
   \<and> calls (fst (snd (logMood (JStr ''constructor'') (JNum 3) (sampleWorld, sampleTracker)))) = 4"
  using constructor_logMood
  by (simp add: validateMoodInput_def MOOD_MAPPINGS_lookup_def MOOD_MAPPINGS_def
      objectPrototypeKeys_def)

text \<open>
  The evaluation above, read as the observation the claim excludes: a validation pass and
  a request counter that is not zero.
\<close>

theorem logMood_inherited_key_submits_witness:
  "validateMoodInput (JStr ''constructor'') (JNum 3)
   \<and> 0 < calls (fst (snd (logMood (JStr ''constructor'') (JNum 3) (sampleWorld, sampleTracker))))"
  using logMood_inherited_key_submits by simp

end
